theory Spec2Isabelle
  imports Complex_Main "HOL-Library.Word"
begin

section \<open>The grid engine\<close>

text \<open>
  The repository's source is the browser driver \<^verbatim>\<open>www/index.js\<close>. The engine it
  drives (the \<^verbatim>\<open>wasm-game-of-life\<close> package with its \<^verbatim>\<open>Universe\<close> class and
  \<^verbatim>\<open>Cell\<close> enum) is imported by the driver but is not among the source files, so the
  definitions of this section follow the specification's description of the Grid.
\<close>

datatype cell = Dead | Alive

text \<open>
  Modelled from the spec: the Grid entity (the engine's source is missing). A grid has a
  \<open>width\<close>, a \<open>height\<close> and a dense row-major sequence of cells, one entry per position.
\<close>

record grid =
  gwidth :: nat
  gheight :: nat
  gcells :: "cell list"

text \<open>
  Modelled from the spec: the Grid invariant (the engine's source is missing): both
  dimensions are positive and \<open>width * height\<close> is the length of the state buffer.
\<close>

definition grid_ok :: "grid \<Rightarrow> bool" where
  "grid_ok g = (0 < gwidth g \<and> 0 < gheight g \<and> length (gcells g) = gwidth g * gheight g)"

text \<open>
  Modelled from the spec: the indexing formula \<open>row * width + column\<close> of the engine's
  buffer (the engine's source is missing).
\<close>

definition cell_at :: "grid \<Rightarrow> nat \<Rightarrow> nat \<Rightarrow> cell" where
  "cell_at g row col = gcells g ! (row * gwidth g + col)"

text \<open>
  Modelled from the spec: toroidal wrap-around of a coordinate on an axis of \<open>n\<close>
  positions (the engine's source is missing): \<open>-1\<close> maps to \<open>n - 1\<close>, \<open>n\<close> maps to \<open>0\<close>.
\<close>

definition wrap :: "nat \<Rightarrow> int \<Rightarrow> nat" where
  "wrap n i = nat (i mod int n)"

text \<open>
  Modelled from the spec: the 8 adjacent positions, orthogonal and diagonal (the engine's
  source is missing).
\<close>

definition neighbor_offsets :: "(int \<times> int) list" where
  "neighbor_offsets =
     [(-1, -1), (-1, 0), (-1, 1), (0, -1), (0, 1), (1, -1), (1, 0), (1, 1)]"

definition neighbors :: "grid \<Rightarrow> nat \<Rightarrow> nat \<Rightarrow> (nat \<times> nat) list" where
  "neighbors g row col =
     map (\<lambda>(dr, dc). (wrap (gheight g) (int row + dr), wrap (gwidth g) (int col + dc)))
       neighbor_offsets"

text \<open>
  Modelled from the spec: the live-neighbour count over the 8 adjacent positions (the
  engine's source is missing).
\<close>

definition live_neighbor_count :: "grid \<Rightarrow> nat \<Rightarrow> nat \<Rightarrow> nat" where
  "live_neighbor_count g row col =
     length (filter (\<lambda>(r, c). cell_at g r c = Alive) (neighbors g row col))"

text \<open>
  Modelled from the spec: the transition rule (the engine's source is missing). An Alive
  cell with 2 or 3 live neighbours stays Alive and otherwise becomes Dead; a Dead cell
  with exactly 3 live neighbours becomes Alive and otherwise stays Dead.
\<close>

fun next_cell :: "cell \<Rightarrow> nat \<Rightarrow> cell" where
  "next_cell Alive n = (if n = 2 \<or> n = 3 then Alive else Dead)"
| "next_cell Dead n = (if n = 3 then Alive else Dead)"

text \<open>
  Modelled from the spec: \<open>step()\<close> (the engine's source is missing). The next
  generation is computed into a second buffer from the previous generation, which then
  replaces the state buffer.
\<close>

definition step :: "grid \<Rightarrow> grid" where
  "step g =
     g\<lparr>gcells :=
         map (\<lambda>i. next_cell (gcells g ! i)
                     (live_neighbor_count g (i div gwidth g) (i mod gwidth g)))
           [0..<gwidth g * gheight g]\<rparr>"

datatype grid_error = InvalidDimension | OutOfBounds

fun flip :: "cell \<Rightarrow> cell" where
  "flip Dead = Alive"
| "flip Alive = Dead"

text \<open>
  Modelled from the spec: \<open>toggle(row, column)\<close> (the engine's source is missing). It
  flips one cell, and fails with OutOfBounds, the grid unchanged, when a coordinate is
  negative, \<open>row >= height\<close> or \<open>column >= width\<close>. The result pairs the error, if
  any, with the grid after the call.
\<close>

definition toggle :: "int \<Rightarrow> int \<Rightarrow> grid \<Rightarrow> grid_error option \<times> grid" where
  "toggle row col g =
     (if row < 0 \<or> col < 0 \<or> int (gheight g) \<le> row \<or> int (gwidth g) \<le> col
      then (Some OutOfBounds, g)
      else (let idx = nat row * gwidth g + nat col
            in (None, g\<lparr>gcells := (gcells g)[idx := flip (gcells g ! idx)]\<rparr>)))"

text \<open>
  Modelled from the spec: \<open>clear()\<close> sets every cell to Dead in place, without changing
  the dimensions (the engine's source is missing).
\<close>

definition clear :: "grid \<Rightarrow> grid" where
  "clear g = g\<lparr>gcells := map (\<lambda>_. Dead) (gcells g)\<rparr>"

text \<open>
  Modelled from the spec: the construction \<open>randomized(width, height)\<close> (the engine's
  source is missing). Each cell is set from a random source, here a sequence of coin
  flips read from position \<open>pos\<close>; a dimension that is not positive fails with
  InvalidDimension.
\<close>

definition coin_cell :: "bool \<Rightarrow> cell" where
  "coin_cell b = (if b then Alive else Dead)"

definition randomized :: "(nat \<Rightarrow> bool) \<Rightarrow> nat \<Rightarrow> int \<Rightarrow> int \<Rightarrow> grid_error + grid" where
  "randomized coins pos w h =
     (if w \<le> 0 \<or> h \<le> 0 then Inl InvalidDimension
      else Inr \<lparr>gwidth = nat w, gheight = nat h,
                gcells = map (\<lambda>i. coin_cell (coins (pos + i))) [0..<nat w * nat h]\<rparr>)"

text \<open>
  Modelled from the spec: \<open>new(width, height)\<close> with the all-Dead default pattern (the
  engine's source is missing).
\<close>

definition new :: "int \<Rightarrow> int \<Rightarrow> grid_error + grid" where
  "new w h =
     (if w \<le> 0 \<or> h \<le> 0 then Inl InvalidDimension
      else Inr \<lparr>gwidth = nat w, gheight = nat h, gcells = replicate (nat w * nat h) Dead\<rparr>)"

section \<open>JavaScript numbers\<close>

text \<open>
  A JavaScript number is a double of IEEE 754: a finite value, kept here as the rational
  it denotes, or one of the three non-finite values. An arithmetic operator gives the
  exact result rounded to the nearest double, on a tie to the one whose significand is
  even, and an infinity when the rounded value lies beyond the largest double. The sign
  of zero is left out: every zero is the positive zero.

  \<open>bit_length n\<close> is the number of binary digits of a positive integer, and \<open>expo x\<close>
  the exponent of a positive rational, the \<open>e\<close> with \<open>2^e \<le> x < 2^(e+1)\<close>. \<open>pow2\<close> is
  the power of two with an integer exponent.
\<close>

function bit_length :: "int \<Rightarrow> nat" where
  "bit_length n = (if n \<le> 0 then 0 else Suc (bit_length (n div 2)))"
  by pat_completeness auto
termination by (relation "measure nat") auto

declare bit_length.simps [simp del]

definition expo :: "rat \<Rightarrow> int" where
  "expo x = (if 1 \<le> x then int (bit_length \<lfloor>x\<rfloor>) - 1
             else - int (bit_length (\<lceil>1 / x\<rceil> - 1)))"

definition pow2 :: "int \<Rightarrow> rat" where
  "pow2 k = (if 0 \<le> k then 2 ^ nat k else 1 / 2 ^ nat (- k))"

text \<open>The integer nearest to a rational, the even one of the two when it lies half way.\<close>

definition round_even :: "rat \<Rightarrow> int" where
  "round_even y =
     (let f = \<lfloor>y\<rfloor>; d = y - of_int f
      in if d < 1 / 2 then f else if 1 / 2 < d then f + 1 else if even f then f else f + 1)"

text \<open>
  Rounding to double precision, before the overflow is looked at: the nearest multiple of
  the spacing of the doubles around \<open>x\<close>, which is \<open>2^(e - 52)\<close> for a number of exponent
  \<open>e\<close>, and \<open>2^(-1074)\<close> for every number below \<open>2^(-1022)\<close>, the subnormal ones.
\<close>

definition to_double :: "rat \<Rightarrow> rat" where
  "to_double x =
     (if x = 0 then 0
      else (let q = pow2 (max (expo \<bar>x\<bar>) (- 1022) - 52)
            in of_int (round_even (x / q)) * q))"

datatype jsnum = Num rat | Infinity | NegInfinity | NaN

text \<open>The number that an exact result becomes.\<close>

definition js_number :: "rat \<Rightarrow> jsnum" where
  "js_number x =
     (let y = to_double x
      in if 2 ^ 1024 \<le> y then Infinity else if y \<le> - (2 ^ 1024) then NegInfinity else Num y)"

text \<open>The operator \<^verbatim>\<open>-\<close> of two numbers.\<close>

fun js_sub :: "jsnum \<Rightarrow> jsnum \<Rightarrow> jsnum" where
  "js_sub NaN y = NaN"
| "js_sub x NaN = NaN"
| "js_sub (Num a) (Num b) = js_number (a - b)"
| "js_sub (Num a) Infinity = NegInfinity"
| "js_sub (Num a) NegInfinity = Infinity"
| "js_sub Infinity (Num b) = Infinity"
| "js_sub NegInfinity (Num b) = NegInfinity"
| "js_sub Infinity Infinity = NaN"
| "js_sub Infinity NegInfinity = Infinity"
| "js_sub NegInfinity Infinity = NegInfinity"
| "js_sub NegInfinity NegInfinity = NaN"

text \<open>The operator \<^verbatim>\<open>*\<close>.\<close>

fun js_mul :: "jsnum \<Rightarrow> jsnum \<Rightarrow> jsnum" where
  "js_mul NaN y = NaN"
| "js_mul x NaN = NaN"
| "js_mul (Num a) (Num b) = js_number (a * b)"
| "js_mul (Num a) Infinity = (if a = 0 then NaN else if 0 < a then Infinity else NegInfinity)"
| "js_mul (Num a) NegInfinity = (if a = 0 then NaN else if 0 < a then NegInfinity else Infinity)"
| "js_mul Infinity (Num b) = (if b = 0 then NaN else if 0 < b then Infinity else NegInfinity)"
| "js_mul NegInfinity (Num b) = (if b = 0 then NaN else if 0 < b then NegInfinity else Infinity)"
| "js_mul Infinity Infinity = Infinity"
| "js_mul Infinity NegInfinity = NegInfinity"
| "js_mul NegInfinity Infinity = NegInfinity"
| "js_mul NegInfinity NegInfinity = Infinity"

text \<open>The operator \<^verbatim>\<open>/\<close>: a division by zero is no error, it gives a non-finite value.\<close>

fun js_div :: "jsnum \<Rightarrow> jsnum \<Rightarrow> jsnum" where
  "js_div NaN y = NaN"
| "js_div x NaN = NaN"
| "js_div (Num a) (Num b) =
     (if b = 0 then (if a = 0 then NaN else if 0 < a then Infinity else NegInfinity)
      else js_number (a / b))"
| "js_div (Num a) Infinity = Num 0"
| "js_div (Num a) NegInfinity = Num 0"
| "js_div Infinity (Num b) = (if 0 \<le> b then Infinity else NegInfinity)"
| "js_div NegInfinity (Num b) = (if 0 \<le> b then NegInfinity else Infinity)"
| "js_div Infinity Infinity = NaN"
| "js_div Infinity NegInfinity = NaN"
| "js_div NegInfinity Infinity = NaN"
| "js_div NegInfinity NegInfinity = NaN"

text \<open>\<^verbatim>\<open>Math.floor\<close> and \<^verbatim>\<open>Math.min\<close> of two arguments.\<close>

fun Math_floor :: "jsnum \<Rightarrow> jsnum" where
  "Math_floor (Num a) = Num (of_int \<lfloor>a\<rfloor>)"
| "Math_floor x = x"

fun Math_min :: "jsnum \<Rightarrow> jsnum \<Rightarrow> jsnum" where
  "Math_min NaN y = NaN"
| "Math_min x NaN = NaN"
| "Math_min NegInfinity y = NegInfinity"
| "Math_min x NegInfinity = NegInfinity"
| "Math_min Infinity y = y"
| "Math_min x Infinity = x"
| "Math_min (Num a) (Num b) = Num (min a b)"

section \<open>The browser and the engine, as the driver sees them\<close>

text \<open>
  The 2D context of the canvas: the two style properties the driver sets, and the
  drawing calls it has received, oldest first. A stroke and a filled rectangle record
  the style in force when they were issued.
\<close>

datatype canvas_op =
    BeginPath
  | MoveTo nat nat
  | LineTo nat nat
  | Stroke string
  | FillRect string nat nat nat nat

record context2d =
  fillStyle :: string
  strokeStyle :: string
  ops :: "canvas_op list"

text \<open>
  The fields of a click event and of \<^verbatim>\<open>canvas.getBoundingClientRect()\<close> that the driver
  reads. Each is a finite double, kept as the rational it denotes.
\<close>

record mouse_event =
  clientX :: rat
  clientY :: rat

record dom_rect =
  rect_left :: rat
  rect_top :: rat
  rect_width :: rat
  rect_height :: rat

text \<open>
  The imported package is not among the sources, so the driver is modelled over any
  engine: a record of the operations of \<^verbatim>\<open>Universe\<close> that the driver calls, over a state
  \<open>'w\<close> of the WebAssembly instance (its linear memory and everything the package keeps).
  A \<^verbatim>\<open>Universe\<close> object is known to the driver by a handle. \<^verbatim>\<open>memory.buffer\<close> is the linear
  memory as bytes, \<^verbatim>\<open>Cell.Dead\<close> is the number the package exports for a dead cell.
  \<^verbatim>\<open>toggle_cell\<close> is the one operation the specification lets fail; a failure reaches
  the driver as an exception.
\<close>

record 'w engine =
  Universe_new :: "'w \<Rightarrow> nat \<times> 'w"
  Universe_random_universe :: "'w \<Rightarrow> nat \<times> 'w"
  universe_width :: "nat \<Rightarrow> 'w \<Rightarrow> nat"
  universe_height :: "nat \<Rightarrow> 'w \<Rightarrow> nat"
  universe_cells :: "nat \<Rightarrow> 'w \<Rightarrow> nat"
  universe_tick :: "nat \<Rightarrow> 'w \<Rightarrow> 'w"
  universe_kill_universe :: "nat \<Rightarrow> 'w \<Rightarrow> 'w"
  universe_toggle_cell :: "nat \<Rightarrow> jsnum \<Rightarrow> jsnum \<Rightarrow> 'w \<Rightarrow> grid_error option \<times> 'w"
  memory_buffer :: "'w \<Rightarrow> 8 word list"
  Cell_Dead :: nat

text \<open>
  The state of the page: the module's variables (\<^verbatim>\<open>universe\<close>, \<^verbatim>\<open>width\<close>, \<^verbatim>\<open>height\<close>,
  \<^verbatim>\<open>animationId\<close>, \<^verbatim>\<open>ticksPerFrame\<close>), the properties of the DOM elements it reads and
  writes, the WebAssembly instance, and the browser's list of requested animation frames
  with the identifier it hands out next. The value of the range input and the text that
  shows it are kept as the number they denote.
\<close>

record 'w page =
  wasm :: 'w
  universe :: nat
  width :: nat
  height :: nat
  canvas_width :: nat
  canvas_height :: nat
  ctx :: context2d
  animationId :: "nat option"
  playPauseButton_textContent :: string
  ticksFrameInputRange_value :: rat
  ticksValue_innerHTML :: rat
  ticksPerFrame :: rat
  frame_requests :: "nat list"
  next_request_id :: nat

datatype js_error = RangeError | EngineError grid_error

text \<open>
  A handler either returns, with the state it leaves, or throws, with the state at the
  throw: nothing in the driver catches an exception.
\<close>

type_synonym 'w outcome = "(js_error \<times> 'w page) + 'w page"

fun after :: "'w outcome \<Rightarrow> 'w page" where
  "after (Inl (e, s)) = s"
| "after (Inr s) = s"

text \<open>
  \<^verbatim>\<open>requestAnimationFrame\<close> registers the callback under a fresh identifier and returns
  it; \<^verbatim>\<open>cancelAnimationFrame\<close> drops the request with that identifier, and does nothing
  for \<^verbatim>\<open>null\<close>.
\<close>

definition requestAnimationFrame :: "'w page \<Rightarrow> nat \<times> 'w page" where
  "requestAnimationFrame s =
     (next_request_id s,
      s\<lparr>frame_requests := frame_requests s @ [next_request_id s],
        next_request_id := Suc (next_request_id s)\<rparr>)"

definition cancelAnimationFrame :: "nat option \<Rightarrow> 'w page \<Rightarrow> 'w page" where
  "cancelAnimationFrame h s =
     (case h of None \<Rightarrow> s
      | Some i \<Rightarrow> s\<lparr>frame_requests := removeAll i (frame_requests s)\<rparr>)"

text \<open>
  \<^verbatim>\<open>new Uint8Array(buffer, byteOffset, length)\<close>: a view of \<open>length\<close> bytes from
  \<open>byteOffset\<close>, or a RangeError when the view does not fit the buffer. Reading an
  element outside a view gives \<^verbatim>\<open>undefined\<close>, here None.
\<close>

definition Uint8Array :: "8 word list \<Rightarrow> nat \<Rightarrow> nat \<Rightarrow> js_error + 8 word list" where
  "Uint8Array buffer byteOffset len =
     (if byteOffset + len \<le> length buffer then Inr (take len (drop byteOffset buffer))
      else Inl RangeError)"

definition element :: "8 word list \<Rightarrow> nat \<Rightarrow> nat option" where
  "element view idx = (if idx < length view then Some (unat (view ! idx)) else None)"

definition ctx_beginPath :: "context2d \<Rightarrow> context2d" where
  "ctx_beginPath c = c\<lparr>ops := ops c @ [BeginPath]\<rparr>"

definition ctx_moveTo :: "nat \<Rightarrow> nat \<Rightarrow> context2d \<Rightarrow> context2d" where
  "ctx_moveTo x y c = c\<lparr>ops := ops c @ [MoveTo x y]\<rparr>"

definition ctx_lineTo :: "nat \<Rightarrow> nat \<Rightarrow> context2d \<Rightarrow> context2d" where
  "ctx_lineTo x y c = c\<lparr>ops := ops c @ [LineTo x y]\<rparr>"

definition ctx_stroke :: "context2d \<Rightarrow> context2d" where
  "ctx_stroke c = c\<lparr>ops := ops c @ [Stroke (strokeStyle c)]\<rparr>"

definition ctx_fillRect :: "nat \<Rightarrow> nat \<Rightarrow> nat \<Rightarrow> nat \<Rightarrow> context2d \<Rightarrow> context2d" where
  "ctx_fillRect x y w h c = c\<lparr>ops := ops c @ [FillRect (fillStyle c) x y w h]\<rparr>"

section \<open>The driver: www/index.js\<close>

definition CELL_SIZE :: nat where
  "CELL_SIZE = 5"

definition GRID_COLOR :: string where
  "GRID_COLOR = ''#CCCCCC''"

definition DEAD_COLOR :: string where
  "DEAD_COLOR = ''#FFFFFF''"

definition ALIVE_COLOR :: string where
  "ALIVE_COLOR = ''#000000''"

text \<open>The two glyphs of the play/pause button, as their UTF-8 bytes (U+23F8 and U+25B6).\<close>

definition PAUSE_GLYPH :: string where
  "PAUSE_GLYPH = [CHR 0xE2, CHR 0x8F, CHR 0xB8]"

definition PLAY_GLYPH :: string where
  "PLAY_GLYPH = [CHR 0xE2, CHR 0x96, CHR 0xB6]"

definition isPaused :: "'w page \<Rightarrow> bool" where
  "isPaused s = (animationId s = None)"

definition pause :: "'w page \<Rightarrow> 'w page" where
  "pause s =
     (let s1 = s\<lparr>playPauseButton_textContent := PLAY_GLYPH\<rparr>;
          s2 = cancelAnimationFrame (animationId s1) s1
      in s2\<lparr>animationId := None\<rparr>)"

definition updateTicks :: "'w page \<Rightarrow> 'w page" where
  "updateTicks s =
     (let s1 = s\<lparr>ticksPerFrame := ticksFrameInputRange_value s\<rparr>
      in s1\<lparr>ticksValue_innerHTML := ticksFrameInputRange_value s1\<rparr>)"

text \<open>The two loops of \<^verbatim>\<open>drawGrid\<close>, over \<open>i = 0, ..., width\<close> and \<open>j = 0, ..., height\<close>.\<close>

definition drawGrid :: "'w page \<Rightarrow> 'w page" where
  "drawGrid s =
     (let c0 = ctx_beginPath (ctx s);
          c1 = c0\<lparr>strokeStyle := GRID_COLOR\<rparr>;
          c2 = fold (\<lambda>i c. ctx_lineTo (i * (CELL_SIZE + 1) + 1) ((CELL_SIZE + 1) * height s + 1)
                            (ctx_moveTo (i * (CELL_SIZE + 1) + 1) 0 c))
                 [0..<Suc (width s)] c1;
          c3 = fold (\<lambda>j c. ctx_lineTo ((CELL_SIZE + 1) * width s + 1) (j * (CELL_SIZE + 1) + 1)
                            (ctx_moveTo 0 (j * (CELL_SIZE + 1) + 1) c))
                 [0..<Suc (height s)] c2
      in s\<lparr>ctx := ctx_stroke c3\<rparr>)"

definition getIndex :: "'w page \<Rightarrow> nat \<Rightarrow> nat \<Rightarrow> nat" where
  "getIndex s row column = row * width s + column"

text \<open>The body of the inner loop of \<^verbatim>\<open>drawCells\<close>, for one row and column.\<close>

definition drawCell :: "'w engine \<Rightarrow> 'w page \<Rightarrow> 8 word list \<Rightarrow> nat \<Rightarrow> nat \<Rightarrow> context2d \<Rightarrow> context2d" where
  "drawCell E s cells row col c =
     (let idx = getIndex s row col;
          c1 = c\<lparr>fillStyle := (if element cells idx = Some (Cell_Dead E) then DEAD_COLOR
                               else ALIVE_COLOR)\<rparr>
      in ctx_fillRect (col * (CELL_SIZE + 1) + 1) (row * (CELL_SIZE + 1) + 1) CELL_SIZE CELL_SIZE c1)"

definition drawCells :: "'w engine \<Rightarrow> 'w page \<Rightarrow> 'w outcome" where
  "drawCells E s =
     (let cellsPtr = universe_cells E (universe s) (wasm s)
      in case Uint8Array (memory_buffer E (wasm s)) cellsPtr (width s * height s) of
           Inl e \<Rightarrow> Inl (e, s)
         | Inr cells \<Rightarrow>
             (let c0 = ctx_beginPath (ctx s);
                  c1 = fold (\<lambda>row c. fold (\<lambda>col c'. drawCell E s cells row col c') [0..<width s] c)
                         [0..<height s] c0
              in Inr (s\<lparr>ctx := ctx_stroke c1\<rparr>)))"

text \<open>
  The loop of \<^verbatim>\<open>renderLoop\<close>: \<^verbatim>\<open>for (let i = 0; i < ticksPerFrame; i++) universe.tick()\<close>.
\<close>

function tick_loop :: "'w engine \<Rightarrow> nat \<Rightarrow> 'w page \<Rightarrow> 'w page" where
  "tick_loop E i s =
     (if of_nat i < ticksPerFrame s
      then tick_loop E (Suc i) (s\<lparr>wasm := universe_tick E (universe s) (wasm s)\<rparr>)
      else s)"
  by pat_completeness auto
termination
proof (relation "measure (\<lambda>(E, i, s). nat \<lceil>ticksPerFrame s\<rceil> - i)")
  show "wf (measure (\<lambda>(E :: 'w engine, i, s :: 'w page). nat \<lceil>ticksPerFrame s\<rceil> - i))"
    by simp
next
  fix E :: "'w engine" and i :: nat and s :: "'w page"
  assume "of_nat i < ticksPerFrame s"
  then have "int i < \<lceil>ticksPerFrame s\<rceil>"
    by (simp add: less_ceiling_iff)
  then show "((E, Suc i, s\<lparr>wasm := universe_tick E (universe s) (wasm s)\<rparr>), (E, i, s))
               \<in> measure (\<lambda>(E, i, s). nat \<lceil>ticksPerFrame s\<rceil> - i)"
    by simp
qed

declare tick_loop.simps [simp del]

definition renderLoop :: "'w engine \<Rightarrow> 'w page \<Rightarrow> 'w outcome" where
  "renderLoop E s =
     (case drawCells E (drawGrid (tick_loop E 0 s)) of
        Inl x \<Rightarrow> Inl x
      | Inr s1 \<Rightarrow>
          (let (h, s2) = requestAnimationFrame s1
           in Inr (s2\<lparr>animationId := Some h\<rparr>)))"

definition play :: "'w engine \<Rightarrow> 'w page \<Rightarrow> 'w outcome" where
  "play E s = renderLoop E (s\<lparr>playPauseButton_textContent := PAUSE_GLYPH\<rparr>)"

definition playPauseClick :: "'w engine \<Rightarrow> 'w page \<Rightarrow> 'w outcome" where
  "playPauseClick E s = (if isPaused s then play E s else Inr (pause s))"

definition resetClick :: "'w engine \<Rightarrow> 'w page \<Rightarrow> 'w outcome" where
  "resetClick E s =
     (let (u, w) = Universe_random_universe E (wasm s)
      in drawCells E (drawGrid (s\<lparr>wasm := w, universe := u\<rparr>)))"

definition killClick :: "'w engine \<Rightarrow> 'w page \<Rightarrow> 'w outcome" where
  "killClick E s =
     (let s1 = pause s;
          s2 = s1\<lparr>wasm := universe_kill_universe E (universe s1) (wasm s1)\<rparr>
      in drawCells E (drawGrid s2))"

text \<open>
  The canvas click handler up to the call of \<^verbatim>\<open>toggle_cell\<close>: the row and the column it
  computes from the event and the bounding rectangle. The two differences, the two
  ratios, the two products and the two quotients are rounded. \<^verbatim>\<open>CELL_SIZE + 1\<close> is 6, and
  \<^verbatim>\<open>height - 1\<close> and \<^verbatim>\<open>width - 1\<close> are exact too: \<^verbatim>\<open>width\<close> and \<^verbatim>\<open>height\<close> are integers
  of 32 bits that the engine returned.
\<close>

definition click_cell :: "'w page \<Rightarrow> mouse_event \<Rightarrow> dom_rect \<Rightarrow> jsnum \<times> jsnum" where
  "click_cell s event boundingRect =
     (let scaleX = js_div (Num (of_nat (canvas_width s))) (Num (rect_width boundingRect));
          scaleY = js_div (Num (of_nat (canvas_height s))) (Num (rect_height boundingRect));
          canvasLeft = js_mul (js_sub (Num (clientX event)) (Num (rect_left boundingRect))) scaleX;
          canvasTop = js_mul (js_sub (Num (clientY event)) (Num (rect_top boundingRect))) scaleY;
          row = Math_min (Math_floor (js_div canvasTop (Num (of_nat (CELL_SIZE + 1)))))
                  (Num (of_int (int (height s) - 1)));
          col = Math_min (Math_floor (js_div canvasLeft (Num (of_nat (CELL_SIZE + 1)))))
                  (Num (of_int (int (width s) - 1)))
      in (row, col))"

definition canvasClick :: "'w engine \<Rightarrow> mouse_event \<Rightarrow> dom_rect \<Rightarrow> 'w page \<Rightarrow> 'w outcome" where
  "canvasClick E event boundingRect s =
     (let (row, col) = click_cell s event boundingRect
      in case universe_toggle_cell E (universe s) row col (wasm s) of
           (Some e, w) \<Rightarrow> Inl (EngineError e, s\<lparr>wasm := w\<rparr>)
         | (None, w) \<Rightarrow> drawCells E (drawGrid (s\<lparr>wasm := w\<rparr>)))"

text \<open>
  The top level of the module, run once when the page loads, from a page \<open>p\<close> that
  holds what the browser provides: the instance, the elements and an empty canvas. First
  the declarations (\<^verbatim>\<open>universe\<close>, \<^verbatim>\<open>width\<close>, \<^verbatim>\<open>height\<close>, the size of the canvas,
  \<^verbatim>\<open>animationId\<close>, \<^verbatim>\<open>ticksPerFrame\<close>), then the four calls that end the file.
\<close>

definition declarations :: "'w engine \<Rightarrow> 'w page \<Rightarrow> 'w page" where
  "declarations E p =
     (let (u, w) = Universe_new E (wasm p);
          s0 = p\<lparr>wasm := w, universe := u\<rparr>;
          s1 = s0\<lparr>width := universe_width E u w\<rparr>;
          s2 = s1\<lparr>height := universe_height E u w\<rparr>;
          s3 = s2\<lparr>canvas_height := (CELL_SIZE + 1) * height s2 + 1\<rparr>;
          s4 = s3\<lparr>canvas_width := (CELL_SIZE + 1) * width s3 + 1\<rparr>;
          s5 = s4\<lparr>animationId := None\<rparr>
      in s5\<lparr>ticksPerFrame := 1\<rparr>)"

definition startup :: "'w engine \<Rightarrow> 'w page \<Rightarrow> 'w outcome" where
  "startup E p =
     (let s = updateTicks (declarations E p)
      in case drawCells E (drawGrid s) of
           Inl x \<Rightarrow> Inl x
         | Inr s1 \<Rightarrow> play E s1)"

text \<open>
  What the browser delivers after the page has loaded: clicks on the three buttons and on
  the canvas, the slider moved to a value, and an animation frame, which runs the
  requested callbacks (each one is \<^verbatim>\<open>renderLoop\<close>) after emptying the list of requests.
  An exception ends the handler that threw it and nothing else.
\<close>

datatype event =
    PlayPauseClick
  | TicksInput rat
  | ResetClick
  | KillClick
  | CanvasClick mouse_event dom_rect
  | AnimationFrame

fun react :: "'w engine \<Rightarrow> event \<Rightarrow> 'w page \<Rightarrow> 'w page" where
  "react E PlayPauseClick s = after (playPauseClick E s)"
| "react E (TicksInput v) s = updateTicks (s\<lparr>ticksFrameInputRange_value := v\<rparr>)"
| "react E ResetClick s = after (resetClick E s)"
| "react E KillClick s = after (killClick E s)"
| "react E (CanvasClick event boundingRect) s = after (canvasClick E event boundingRect s)"
| "react E AnimationFrame s =
     fold (\<lambda>h s'. after (renderLoop E s')) (frame_requests s) (s\<lparr>frame_requests := []\<rparr>)"

definition run :: "'w engine \<Rightarrow> event list \<Rightarrow> 'w page \<Rightarrow> 'w page" where
  "run E evs s = fold (react E) evs s"

text \<open>
  The four dimensions the driver works with: the constants \<^verbatim>\<open>width\<close> and \<^verbatim>\<open>height\<close>, and
  the size of the canvas.
\<close>

definition dimensions :: "'w page \<Rightarrow> nat \<times> nat \<times> nat \<times> nat" where
  "dimensions s = (width s, height s, canvas_width s, canvas_height s)"

text \<open>The slider, the text that shows its value, and \<^verbatim>\<open>ticksPerFrame\<close>.\<close>

definition ticks :: "'w page \<Rightarrow> rat \<times> rat \<times> rat" where
  "ticks s = (ticksFrameInputRange_value s, ticksValue_innerHTML s, ticksPerFrame s)"

definition settings :: "'w page \<Rightarrow> (nat \<times> nat \<times> nat \<times> nat) \<times> (rat \<times> rat \<times> rat)" where
  "settings s = (dimensions s, ticks s)"

section \<open>What a redraw is to put on the canvas\<close>

text \<open>
  The drawing calls the renderer is meant to issue, written from the buffer layout
  rather than from the driver's loops: the grid lines of a \<open>w\<close> by \<open>h\<close> grid with a
  pitch of 6 pixels, and one 5 by 5 rectangle per cell in row-major order, coloured by
  the byte at \<open>ptr + (row * w + col)\<close> of the buffer.
\<close>

definition grid_lines :: "nat \<Rightarrow> nat \<Rightarrow> canvas_op list" where
  "grid_lines w h =
     [BeginPath]
     @ concat (map (\<lambda>i. [MoveTo (i * 6 + 1) 0, LineTo (i * 6 + 1) (6 * h + 1)]) [0..<Suc w])
     @ concat (map (\<lambda>j. [MoveTo 0 (j * 6 + 1), LineTo (6 * w + 1) (j * 6 + 1)]) [0..<Suc h])
     @ [Stroke ''#CCCCCC'']"

definition cell_rect :: "nat \<Rightarrow> 8 word list \<Rightarrow> nat \<Rightarrow> nat \<Rightarrow> nat \<Rightarrow> nat \<Rightarrow> canvas_op" where
  "cell_rect dead buffer ptr w row col =
     FillRect (if unat (buffer ! (ptr + (row * w + col))) = dead then ''#FFFFFF'' else ''#000000'')
       (col * 6 + 1) (row * 6 + 1) 5 5"

definition cell_rects :: "nat \<Rightarrow> 8 word list \<Rightarrow> nat \<Rightarrow> nat \<Rightarrow> nat \<Rightarrow> canvas_op list" where
  "cell_rects dead buffer ptr w h =
     concat (map (\<lambda>row. map (\<lambda>col. cell_rect dead buffer ptr w row col) [0..<w]) [0..<h])"

text \<open>
  The view of \<open>width * height\<close> bytes at the cell pointer of the current universe lies
  inside the linear memory.
\<close>

definition view_fits :: "'w engine \<Rightarrow> 'w page \<Rightarrow> bool" where
  "view_fits E s =
     (universe_cells E (universe s) (wasm s) + width s * height s
        \<le> length (memory_buffer E (wasm s)))"

text \<open>One frame: the grid lines, then the cells as the instance's memory holds them in \<open>s\<close>.\<close>

definition frame_ops :: "'w engine \<Rightarrow> 'w page \<Rightarrow> canvas_op list" where
  "frame_ops E s =
     grid_lines (width s) (height s)
     @ [BeginPath]
     @ cell_rects (Cell_Dead E) (memory_buffer E (wasm s))
         (universe_cells E (universe s) (wasm s)) (width s) (height s)
     @ [Stroke ''#CCCCCC'']"

text \<open>The drawing calls that paint a cell.\<close>

fun is_FillRect :: "canvas_op \<Rightarrow> bool" where
  "is_FillRect (FillRect colour x y w h) = True"
| "is_FillRect other = False"

section \<open>An instance of the engine on the grid model\<close>

text \<open>
  To evaluate the driver on concrete pages, an engine is built from the grid model of the
  first section. The instance keeps the universes it has constructed, in order; a handle
  is the position of a universe in that list. The linear memory is the cell buffers of
  the universes one after the other, a Dead cell as the byte 0 and an Alive cell as the
  byte 1. The constructors take their dimensions and the coin flips from the parameters
  \<open>dims\<close>, \<open>rdims\<close> and \<open>coins\<close>.
\<close>

record world =
  grids :: "grid list"
  coin_pos :: nat

fun cell_byte :: "cell \<Rightarrow> 8 word" where
  "cell_byte Dead = 0"
| "cell_byte Alive = 1"

definition world_memory :: "world \<Rightarrow> 8 word list" where
  "world_memory w = concat (map (\<lambda>g. map cell_byte (gcells g)) (grids w))"

definition cells_ptr :: "nat \<Rightarrow> world \<Rightarrow> nat" where
  "cells_ptr h w = sum_list (map (\<lambda>g. length (gcells g)) (take h (grids w)))"

definition alloc :: "grid \<Rightarrow> world \<Rightarrow> nat \<times> world" where
  "alloc g w = (length (grids w), w\<lparr>grids := grids w @ [g]\<rparr>)"

definition on_grid :: "(grid \<Rightarrow> grid) \<Rightarrow> nat \<Rightarrow> world \<Rightarrow> world" where
  "on_grid f h w = w\<lparr>grids := (grids w)[h := f (grids w ! h)]\<rparr>"

fun to_coord :: "jsnum \<Rightarrow> int option" where
  "to_coord (Num a) = (if a = of_int \<lfloor>a\<rfloor> then Some \<lfloor>a\<rfloor> else None)"
| "to_coord x = None"

definition grid_engine :: "(nat \<Rightarrow> bool) \<Rightarrow> int \<times> int \<Rightarrow> int \<times> int \<Rightarrow> world engine" where
  "grid_engine coins dims rdims =
     \<lparr>Universe_new =
        (\<lambda>w. case new (fst dims) (snd dims) of
                Inr g \<Rightarrow> alloc g w
              | Inl e \<Rightarrow> (length (grids w), w)),
      Universe_random_universe =
        (\<lambda>w. case randomized coins (coin_pos w) (fst rdims) (snd rdims) of
                Inr g \<Rightarrow> alloc g (w\<lparr>coin_pos := coin_pos w + length (gcells g)\<rparr>)
              | Inl e \<Rightarrow> (length (grids w), w)),
      universe_width = (\<lambda>h w. gwidth (grids w ! h)),
      universe_height = (\<lambda>h w. gheight (grids w ! h)),
      universe_cells = cells_ptr,
      universe_tick = on_grid step,
      universe_kill_universe = on_grid clear,
      universe_toggle_cell =
        (\<lambda>h row col w.
           case (to_coord row, to_coord col) of
             (Some r, Some c) \<Rightarrow>
               (let (e, g) = toggle r c (grids w ! h) in (e, w\<lparr>grids := (grids w)[h := g]\<rparr>))
           | _ \<Rightarrow> (Some OutOfBounds, w)),
      memory_buffer = world_memory,
      Cell_Dead = 0\<rparr>"

text \<open>A page as the browser provides it before the module runs, for evaluation.\<close>

definition blank_page :: "rat \<Rightarrow> world page" where
  "blank_page v =
     \<lparr>wasm = \<lparr>grids = [], coin_pos = 0\<rparr>, universe = 0, width = 0, height = 0,
      canvas_width = 300, canvas_height = 150,
      ctx = \<lparr>fillStyle = ''#000000'', strokeStyle = ''#000000'', ops = []\<rparr>,
      animationId = None, playPauseButton_textContent = [],
      ticksFrameInputRange_value = v, ticksValue_innerHTML = 0, ticksPerFrame = 0,
      frame_requests = [], next_request_id = 1\<rparr>"

text \<open>
  An engine whose first universe is 3 wide and 1 high and whose random universes are 1
  wide and 3 high, and a page of the driver on it: playing at 2 ticks per frame, with one
  universe, its left cell Alive, and nothing drawn yet. The canvas of 19 by 7 pixels is
  shown at twice its size, at (100, 50) of the viewport.
\<close>

definition E0 :: "world engine" where
  "E0 = grid_engine (\<lambda>n. even n) (3, 1) (1, 3)"

definition page1 :: "world page" where
  "page1 =
     \<lparr>wasm = \<lparr>grids = [\<lparr>gwidth = 3, gheight = 1, gcells = [Alive, Dead, Dead]\<rparr>],
              coin_pos = 0\<rparr>,
      universe = 0, width = 3, height = 1, canvas_width = 19, canvas_height = 7,
      ctx = \<lparr>fillStyle = ''#000000'', strokeStyle = ''#CCCCCC'', ops = []\<rparr>,
      animationId = Some 1, playPauseButton_textContent = PAUSE_GLYPH,
      ticksFrameInputRange_value = 2, ticksValue_innerHTML = 2, ticksPerFrame = 2,
      frame_requests = [1], next_request_id = 2\<rparr>"

definition rect1 :: dom_rect where
  "rect1 = \<lparr>rect_left = 100, rect_top = 50, rect_width = 38, rect_height = 14\<rparr>"

text \<open>
  Three clicks: inside the right cell, on the bottom right corner of the canvas, and on
  the top left corner of a canvas that is laid out with no size (\<open>rect0\<close>). The page
  \<open>page2\<close> has a \<open>height\<close> of 2, more than the memory of its instance holds.
\<close>

definition click1 :: mouse_event where
  "click1 = \<lparr>clientX = 126, clientY = 56\<rparr>"


definition click3 :: mouse_event where
  "click3 = \<lparr>clientX = 100, clientY = 50\<rparr>"

definition rect0 :: dom_rect where
  "rect0 = \<lparr>rect_left = 100, rect_top = 50, rect_width = 0, rect_height = 0\<rparr>"

definition page2 :: "world page" where
  "page2 = page1\<lparr>height := 2\<rparr>"

text \<open>
  The canvas shown at 49 times its size (\<open>rect2\<close>) with a click 294 pixels right of and
  49 pixels below its corner, and the canvas laid out \<open>2^(-1074)\<close> pixels wide and high
  (\<open>rect3\<close>), the least positive double.
\<close>

definition rect2 :: dom_rect where
  "rect2 = \<lparr>rect_left = 100, rect_top = 50, rect_width = 931, rect_height = 343\<rparr>"

definition click4 :: mouse_event where
  "click4 = \<lparr>clientX = 394, clientY = 99\<rparr>"

definition rect3 :: dom_rect where
  "rect3 = \<lparr>rect_left = 100, rect_top = 50, rect_width = 1 / 2 ^ 1074, rect_height = 1 / 2 ^ 1074\<rparr>"

section \<open>Concrete grids\<close>

definition blinker :: grid where
  "blinker = \<lparr>gwidth = 3, gheight = 3,
     gcells = [Dead, Dead, Dead, Alive, Alive, Alive, Dead, Dead, Dead]\<rparr>"

definition corner :: grid where
  "corner = \<lparr>gwidth = 2, gheight = 2, gcells = [Alive, Dead, Dead, Dead]\<rparr>"

definition corners :: grid where
  "corners = \<lparr>gwidth = 3, gheight = 3,
     gcells = [Alive, Dead, Alive, Dead, Dead, Dead, Alive, Dead, Alive]\<rparr>"

section \<open>Properties of the grid engine\<close>

lemma wrap_less: "0 < n \<Longrightarrow> wrap n i < n"
  by (simp add: wrap_def nat_less_iff)

lemma wrap_pred: "r < n \<Longrightarrow> wrap n (int r + (- 1)) = (if r = 0 then n - 1 else r - 1)"
proof (cases "r = 0")
  case True
  assume "r < n"
  with True have "(- 1) mod int n = int n - 1"
    by (simp add: zmod_minus1)
  with True show ?thesis by (simp add: wrap_def)
next
  case False
  assume "r < n"
  with False have "(int r - 1) mod int n = int r - 1"
    by simp
  with False show ?thesis by (simp add: wrap_def nat_diff_distrib)
qed

lemma wrap_same: "r < n \<Longrightarrow> wrap n (int r + 0) = r"
  by (simp add: wrap_def)

lemma wrap_succ: "r < n \<Longrightarrow> wrap n (int r + 1) = (if r = n - 1 then 0 else r + 1)"
proof (cases "r = n - 1")
  case True
  assume "r < n"
  with True have "int r + 1 = int n" by simp
  then show ?thesis using True by (simp add: wrap_def)
next
  case False
  assume "r < n"
  with False have "(int r + 1) mod int n = int r + 1"
    by simp
  with False show ?thesis by (simp add: wrap_def nat_add_distrib)
qed

lemma neighbors_explicit:
  assumes "row < gheight g" "col < gwidth g"
  shows "neighbors g row col =
     (let up = (if row = 0 then gheight g - 1 else row - 1);
          down = (if row = gheight g - 1 then 0 else row + 1);
          left = (if col = 0 then gwidth g - 1 else col - 1);
          right = (if col = gwidth g - 1 then 0 else col + 1)
      in [(up, left), (up, col), (up, right), (row, left), (row, right),
          (down, left), (down, col), (down, right)])"
  using assms
  by (simp only: neighbors_def neighbor_offsets_def list.map prod.case wrap_pred wrap_same wrap_succ Let_def)

lemma neighbors_in_grid:
  assumes "grid_ok g"
  shows "list_all (\<lambda>(r, c). r < gheight g \<and> c < gwidth g) (neighbors g row col)"
  using assms
  by (simp add: neighbors_def neighbor_offsets_def grid_ok_def wrap_less)

lemma index_in_buffer:
  assumes "grid_ok g" "row < gheight g" "col < gwidth g"
  shows "row * gwidth g + col < gwidth g * gheight g"
proof -
  have "row * gwidth g + col < (row + 1) * gwidth g" using assms(3) by simp
  also have "\<dots> \<le> gheight g * gwidth g" using assms(2) by (intro mult_le_mono1) simp
  finally show ?thesis by (simp add: mult.commute)
qed

lemma step_cell:
  assumes "grid_ok g" "row < gheight g" "col < gwidth g"
  shows "cell_at (step g) row col = next_cell (cell_at g row col) (live_neighbor_count g row col)"
proof -
  have d: "(row * gwidth g + col) div gwidth g = row" using assms(3) by simp
  have m: "(row * gwidth g + col) mod gwidth g = col" using assms(3) by simp
  show ?thesis
    using index_in_buffer [OF assms] d m by (simp add: step_def cell_at_def)
qed

lemma step_grid_ok: "grid_ok g \<Longrightarrow> grid_ok (step g)"
  by (simp add: grid_ok_def step_def)

lemma next_cell_case:
  "next_cell c n =
     (case c of Alive \<Rightarrow> (if n = 2 \<or> n = 3 then Alive else Dead)
              | Dead \<Rightarrow> (if n = 3 then Alive else Dead))"
  by (cases c) simp_all

text \<open>
  C1: on every grid, \<open>step\<close> computes one generation from the previous one. The
  neighbours of a cell are the 8 adjacent positions with toroidal wrap-around (row \<open>-1\<close>
  is row \<open>height - 1\<close>, row \<open>height\<close> is row \<open>0\<close>, and so for the columns), all
  inside the grid; an Alive cell with 2 or 3 live neighbours stays Alive and otherwise
  becomes Dead, a Dead cell with exactly 3 live neighbours becomes Alive and otherwise
  stays Dead; the counts are taken on the grid before the step, and the dimensions do
  not change.
\<close>

theorem step_generation:
  assumes "grid_ok g" and "row < gheight g" and "col < gwidth g"
  shows "(let up = (if row = 0 then gheight g - 1 else row - 1);
              down = (if row = gheight g - 1 then 0 else row + 1);
              left = (if col = 0 then gwidth g - 1 else col - 1);
              right = (if col = gwidth g - 1 then 0 else col + 1);
              around = [(up, left), (up, col), (up, right), (row, left), (row, right),
                        (down, left), (down, col), (down, right)];
              n = length (filter (\<lambda>(r, c). cell_at g r c = Alive) around)
          in neighbors g row col = around \<and> length around = 8
             \<and> list_all (\<lambda>(r, c). r < gheight g \<and> c < gwidth g) around
             \<and> cell_at (step g) row col =
                 (case cell_at g row col of
                    Alive \<Rightarrow> (if n = 2 \<or> n = 3 then Alive else Dead)
                  | Dead \<Rightarrow> (if n = 3 then Alive else Dead)))
         \<and> gwidth (step g) = gwidth g \<and> gheight (step g) = gheight g \<and> grid_ok (step g)"
proof -
  note nb = neighbors_explicit [OF assms(2,3)]
  have in_grid: "list_all (\<lambda>(r, c). r < gheight g \<and> c < gwidth g) (neighbors g row col)"
    by (rule neighbors_in_grid [OF assms(1)])
  have cell: "cell_at (step g) row col =
      (case cell_at g row col of
         Alive \<Rightarrow> (if live_neighbor_count g row col = 2 \<or> live_neighbor_count g row col = 3
                   then Alive else Dead)
       | Dead \<Rightarrow> (if live_neighbor_count g row col = 3 then Alive else Dead))"
    by (simp only: step_cell [OF assms] next_cell_case)
  have dims: "gwidth (step g) = gwidth g \<and> gheight (step g) = gheight g"
    by (simp add: step_def)
  show ?thesis
    using in_grid cell dims step_grid_ok [OF assms(1)]
    unfolding live_neighbor_count_def nb Let_def
    by simp
qed

theorem step_generation_witness:
  "grid_ok blinker \<and> 0 < gheight blinker \<and> 1 < gwidth blinker
   \<and> neighbors blinker 0 1 = [(2, 0), (2, 1), (2, 2), (0, 0), (0, 2), (1, 0), (1, 1), (1, 2)]
   \<and> cell_at blinker 0 1 = Dead \<and> cell_at (step blinker) 0 1 = Alive
   \<and> grid_ok (step blinker)"
proof -
  have ok: "grid_ok blinker" by (simp add: blinker_def grid_ok_def)
  have r: "0 < gheight blinker" by (simp add: blinker_def)
  have c: "1 < gwidth blinker" by (simp add: blinker_def)
  show ?thesis
    using ok r c step_generation [OF ok r c]
    by (simp add: blinker_def cell_at_def Let_def)
qed

text \<open>
  The cell at \<open>(0, 0)\<close> of a grid whose other live cells are the three other corners
  counts them across the edges. On a torus of 3 by 3 every cell has the whole middle row
  among its neighbours, so a row of three live cells fills the grid in one step.
\<close>

lemma corners_wrap: "live_neighbor_count corners 0 0 = 3"
  by (simp add: corners_def live_neighbor_count_def neighbors_def neighbor_offsets_def wrap_def
      cell_at_def)

lemma blinker_on_torus:
  "gcells (step blinker) = [Alive, Alive, Alive, Alive, Alive, Alive, Alive, Alive, Alive]"
  by (simp add: blinker_def step_def live_neighbor_count_def neighbors_def
      neighbor_offsets_def wrap_def cell_at_def upt_rec)

lemma index_inj:
  assumes "c < w" "c' < w" "r * w + c = r' * w + c'"
  shows "r = r' \<and> c = (c'::nat)"
proof -
  have "(r * w + c) div w = r" "(r' * w + c') div w = r'" using assms(1,2) by simp_all
  moreover have "(r * w + c) mod w = c" "(r' * w + c') mod w = c'" using assms(1,2) by simp_all
  ultimately show ?thesis using assms(3) by metis
qed

lemma flip_neq: "flip c \<noteq> c"
  by (cases c) simp_all

text \<open>
  C7: \<open>toggle row col\<close> with a coordinate that is negative, or \<open>row >= height\<close>, or
  \<open>col >= width\<close>, fails with OutOfBounds and returns the grid as it was. Inside the
  grid it succeeds, flips the addressed cell and changes no other entry of the buffer.
\<close>

theorem toggle_contract:
  "(row < 0 \<or> col < 0 \<or> int (gheight g) \<le> row \<or> int (gwidth g) \<le> col
      \<longrightarrow> toggle row col g = (Some OutOfBounds, g))
   \<and> (grid_ok g \<and> 0 \<le> row \<and> row < int (gheight g) \<and> 0 \<le> col \<and> col < int (gwidth g)
      \<longrightarrow> fst (toggle row col g) = None
          \<and> gwidth (snd (toggle row col g)) = gwidth g
          \<and> gheight (snd (toggle row col g)) = gheight g
          \<and> length (gcells (snd (toggle row col g))) = length (gcells g)
          \<and> cell_at (snd (toggle row col g)) (nat row) (nat col)
              = flip (cell_at g (nat row) (nat col))
          \<and> cell_at (snd (toggle row col g)) (nat row) (nat col) \<noteq> cell_at g (nat row) (nat col)
          \<and> (\<forall>i. i \<noteq> nat row * gwidth g + nat col
                \<longrightarrow> gcells (snd (toggle row col g)) ! i = gcells g ! i)
          \<and> (\<forall>r c. r < gheight g \<and> c < gwidth g \<and> (r, c) \<noteq> (nat row, nat col)
                \<longrightarrow> cell_at (snd (toggle row col g)) r c = cell_at g r c))"
proof (intro conjI impI)
  assume "row < 0 \<or> col < 0 \<or> int (gheight g) \<le> row \<or> int (gwidth g) \<le> col"
  then show "toggle row col g = (Some OutOfBounds, g)"
    by (simp add: toggle_def)
next
  assume a: "grid_ok g \<and> 0 \<le> row \<and> row < int (gheight g) \<and> 0 \<le> col \<and> col < int (gwidth g)"
  let ?idx = "nat row * gwidth g + nat col"
  have t: "toggle row col g = (None, g\<lparr>gcells := (gcells g)[?idx := flip (gcells g ! ?idx)]\<rparr>)"
    using a by (simp add: toggle_def Let_def)
  have r: "nat row < gheight g" using a by linarith
  have c: "nat col < gwidth g" using a by linarith
  have lt: "?idx < length (gcells g)"
    using index_in_buffer [of g "nat row" "nat col"] a r c by (simp add: grid_ok_def)
  show "fst (toggle row col g) = None" by (simp add: t)
  show "gwidth (snd (toggle row col g)) = gwidth g" by (simp add: t)
  show "gheight (snd (toggle row col g)) = gheight g" by (simp add: t)
  show "length (gcells (snd (toggle row col g))) = length (gcells g)" by (simp add: t)
  show fl: "cell_at (snd (toggle row col g)) (nat row) (nat col) = flip (cell_at g (nat row) (nat col))"
    using lt by (simp add: t cell_at_def)
  show "cell_at (snd (toggle row col g)) (nat row) (nat col) \<noteq> cell_at g (nat row) (nat col)"
    by (simp only: fl flip_neq not_False_eq_True)
  show "\<forall>i. i \<noteq> ?idx \<longrightarrow> gcells (snd (toggle row col g)) ! i = gcells g ! i"
    by (simp add: t)
  show "\<forall>r c. r < gheight g \<and> c < gwidth g \<and> (r, c) \<noteq> (nat row, nat col)
          \<longrightarrow> cell_at (snd (toggle row col g)) r c = cell_at g r c"
  proof (intro allI impI)
    fix r' c'
    assume h: "r' < gheight g \<and> c' < gwidth g \<and> (r', c') \<noteq> (nat row, nat col)"
    have "r' * gwidth g + c' \<noteq> ?idx"
      using index_inj [of c' "gwidth g" "nat col" r' "nat row"] h c by auto
    then show "cell_at (snd (toggle row col g)) r' c' = cell_at g r' c'"
      by (simp add: t cell_at_def)
  qed
qed

theorem toggle_contract_witness:
  "grid_ok corner
   \<and> toggle 1 0 corner = (None, corner\<lparr>gcells := [Alive, Dead, Alive, Dead]\<rparr>)
   \<and> cell_at (snd (toggle 1 0 corner)) 1 0 = Alive \<and> cell_at corner 1 0 = Dead
   \<and> cell_at (snd (toggle 1 0 corner)) 0 0 = cell_at corner 0 0
   \<and> toggle 2 0 corner = (Some OutOfBounds, corner)
   \<and> toggle 0 2 corner = (Some OutOfBounds, corner)
   \<and> toggle (- 1) 0 corner = (Some OutOfBounds, corner)"
proof -
  have ok: "grid_ok corner" by (simp add: corner_def grid_ok_def)
  have t: "toggle 1 0 corner = (None, corner\<lparr>gcells := [Alive, Dead, Alive, Dead]\<rparr>)"
    by (simp add: toggle_def corner_def)
  show ?thesis
    using ok t toggle_contract [of 1 0 corner] toggle_contract [of 2 0 corner]
      toggle_contract [of 0 2 corner] toggle_contract [of "- 1" 0 corner]
    by (simp add: corner_def cell_at_def)
qed

section \<open>Properties of the drawing functions\<close>

lemma fold_line_ops:
  "fold (\<lambda>i c. ctx_lineTo (x2 i) (y2 i) (ctx_moveTo (x1 i) (y1 i) c)) xs c
     = c\<lparr>ops := ops c @ concat (map (\<lambda>i. [MoveTo (x1 i) (y1 i), LineTo (x2 i) (y2 i)]) xs)\<rparr>"
  by (induction xs arbitrary: c) (simp_all add: ctx_lineTo_def ctx_moveTo_def)

lemma drawGrid_eq:
  "drawGrid s
     = s\<lparr>ctx := (ctx s)\<lparr>strokeStyle := GRID_COLOR,
                          ops := ops (ctx s) @ grid_lines (width s) (height s)\<rparr>\<rparr>"
  by (simp add: drawGrid_def Let_def fold_line_ops ctx_beginPath_def ctx_stroke_def
      grid_lines_def CELL_SIZE_def GRID_COLOR_def mult.commute del: upt_Suc)

lemma fold_cols_ops:
  "fold (\<lambda>col c'. drawCell E s cells row col c') cols c
     = c\<lparr>fillStyle := (if cols = [] then fillStyle c
                       else (if element cells (getIndex s row (last cols)) = Some (Cell_Dead E)
                             then DEAD_COLOR else ALIVE_COLOR)),
         ops := ops c @ map (\<lambda>col. FillRect (if element cells (getIndex s row col) = Some (Cell_Dead E)
                                                then DEAD_COLOR else ALIVE_COLOR)
                                       (col * 6 + 1) (row * 6 + 1) 5 5) cols\<rparr>"
  by (induction cols arbitrary: c)
     (simp_all add: drawCell_def Let_def ctx_fillRect_def CELL_SIZE_def)

lemma fold_rows_ops:
  "ops (fold (\<lambda>row c. fold (\<lambda>col c'. drawCell E s cells row col c') cols c) rows c0)
     = ops c0 @ concat (map (\<lambda>row. map (\<lambda>col.
         FillRect (if element cells (getIndex s row col) = Some (Cell_Dead E)
                   then DEAD_COLOR else ALIVE_COLOR) (col * 6 + 1) (row * 6 + 1) 5 5) cols) rows)"
  by (induction rows arbitrary: c0) (simp_all add: fold_cols_ops)

lemma fold_rows_strokeStyle:
  "strokeStyle (fold (\<lambda>row c. fold (\<lambda>col c'. drawCell E s cells row col c') cols c) rows c0)
     = strokeStyle c0"
  by (induction rows arbitrary: c0) (simp_all add: fold_cols_ops)

lemma index_less: "row < h \<Longrightarrow> col < w \<Longrightarrow> row * w + col < w * (h::nat)"
proof -
  assume r: "row < h" and c: "col < w"
  have "row * w + col < (row + 1) * w" using c by simp
  also have "\<dots> \<le> h * w" using r by (intro mult_le_mono1) simp
  finally show ?thesis by (simp add: mult.commute)
qed

lemma element_view:
  assumes "ptr + w * h \<le> length buffer" "row < h" "col < w"
  shows "element (take (w * h) (drop ptr buffer)) (row * w + col)
           = Some (unat (buffer ! (ptr + (row * w + col))))"
  using assms index_less [OF assms(2,3)] by (simp add: element_def)

lemma cell_rects_view:
  assumes "universe_cells E (universe s) (wasm s) + width s * height s
             \<le> length (memory_buffer E (wasm s))"
  shows "concat (map (\<lambda>row. map (\<lambda>col.
           FillRect (if element (take (width s * height s)
                                   (drop (universe_cells E (universe s) (wasm s))
                                      (memory_buffer E (wasm s))))
                          (getIndex s row col) = Some (Cell_Dead E)
                     then DEAD_COLOR else ALIVE_COLOR) (col * 6 + 1) (row * 6 + 1) 5 5)
           [0..<width s]) [0..<height s])
         = cell_rects (Cell_Dead E) (memory_buffer E (wasm s))
             (universe_cells E (universe s) (wasm s)) (width s) (height s)"
  unfolding cell_rects_def
proof (rule arg_cong [where f = concat], rule map_cong [OF refl], rule map_cong [OF refl])
  fix row col
  assume "row \<in> set [0..<height s]" "col \<in> set [0..<width s]"
  then have "row < height s" "col < width s" by simp_all
  then show "FillRect (if element (take (width s * height s)
                                   (drop (universe_cells E (universe s) (wasm s))
                                      (memory_buffer E (wasm s))))
                          (getIndex s row col) = Some (Cell_Dead E)
                     then DEAD_COLOR else ALIVE_COLOR) (col * 6 + 1) (row * 6 + 1) 5 5
           = cell_rect (Cell_Dead E) (memory_buffer E (wasm s))
               (universe_cells E (universe s) (wasm s)) (width s) row col"
    using element_view [OF assms]
    by (simp add: getIndex_def cell_rect_def DEAD_COLOR_def ALIVE_COLOR_def)
qed

lemma drawCells_ok:
  assumes "view_fits E s"
  shows "\<exists>c. drawCells E s = Inr (s\<lparr>ctx := c\<rparr>)
           \<and> ops c = ops (ctx s) @ [BeginPath]
                 @ cell_rects (Cell_Dead E) (memory_buffer E (wasm s))
                     (universe_cells E (universe s) (wasm s)) (width s) (height s)
                 @ [Stroke (strokeStyle (ctx s))]
           \<and> strokeStyle c = strokeStyle (ctx s)"
proof -
  have fits: "universe_cells E (universe s) (wasm s) + width s * height s
                \<le> length (memory_buffer E (wasm s))"
    using assms by (simp add: view_fits_def)
  define c where "c = ctx_stroke (fold (\<lambda>row c. fold (\<lambda>col c'. drawCell E s
      (take (width s * height s) (drop (universe_cells E (universe s) (wasm s))
         (memory_buffer E (wasm s)))) row col c') [0..<width s] c)
      [0..<height s] (ctx_beginPath (ctx s)))"
  have run: "drawCells E s = Inr (s\<lparr>ctx := c\<rparr>)"
    using fits by (simp add: drawCells_def Uint8Array_def Let_def c_def)
  have drawn: "ops c = ops (ctx s) @ [BeginPath]
                 @ cell_rects (Cell_Dead E) (memory_buffer E (wasm s))
                     (universe_cells E (universe s) (wasm s)) (width s) (height s)
                 @ [Stroke (strokeStyle (ctx s))]"
    unfolding c_def
    using cell_rects_view [OF fits]
    by (simp add: ctx_stroke_def ctx_beginPath_def fold_rows_ops fold_rows_strokeStyle)
  have style: "strokeStyle c = strokeStyle (ctx s)"
    unfolding c_def by (simp add: ctx_stroke_def ctx_beginPath_def fold_rows_strokeStyle)
  from run drawn style show ?thesis by blast
qed

lemma drawCells_fail:
  "\<not> view_fits E s \<Longrightarrow> drawCells E s = Inl (RangeError, s)"
  by (simp add: drawCells_def Uint8Array_def view_fits_def)

lemma redraw_ok:
  assumes "view_fits E s"
  shows "\<exists>c. drawCells E (drawGrid s) = Inr (s\<lparr>ctx := c\<rparr>)
           \<and> ops c = ops (ctx s) @ frame_ops E s \<and> strokeStyle c = ''#CCCCCC''"
proof -
  have "view_fits E (drawGrid s)"
    using assms by (simp add: view_fits_def drawGrid_eq)
  from drawCells_ok [OF this] obtain c where
    c: "drawCells E (drawGrid s) = Inr ((drawGrid s)\<lparr>ctx := c\<rparr>)"
       "ops c = ops (ctx (drawGrid s)) @ [BeginPath]
                 @ cell_rects (Cell_Dead E) (memory_buffer E (wasm (drawGrid s)))
                     (universe_cells E (universe (drawGrid s)) (wasm (drawGrid s)))
                     (width (drawGrid s)) (height (drawGrid s))
                 @ [Stroke (strokeStyle (ctx (drawGrid s)))]"
       "strokeStyle c = strokeStyle (ctx (drawGrid s))"
    by blast
  have "drawCells E (drawGrid s) = Inr (s\<lparr>ctx := c\<rparr>)"
    using c(1) by (simp add: drawGrid_eq)
  moreover have "ops c = ops (ctx s) @ frame_ops E s"
    using c(2) by (simp add: drawGrid_eq frame_ops_def GRID_COLOR_def)
  moreover have "strokeStyle c = ''#CCCCCC''"
    using c(3) by (simp add: drawGrid_eq GRID_COLOR_def)
  ultimately show ?thesis by blast
qed

lemma redraw_fail:
  "\<not> view_fits E s \<Longrightarrow> drawCells E (drawGrid s) = Inl (RangeError, drawGrid s)"
  by (rule drawCells_fail) (simp add: view_fits_def drawGrid_eq)

lemma tick_loop_eq:
  "tick_loop E i s
     = s\<lparr>wasm := (universe_tick E (universe s) ^^ (nat \<lceil>ticksPerFrame s\<rceil> - i)) (wasm s)\<rparr>"
proof (induction E i s rule: tick_loop.induct)
  case (1 E i s)
  show ?case
  proof (cases "of_nat i < ticksPerFrame s")
    case True
    then have "int i < \<lceil>ticksPerFrame s\<rceil>" by (simp add: less_ceiling_iff)
    then have "nat \<lceil>ticksPerFrame s\<rceil> - i = Suc (nat \<lceil>ticksPerFrame s\<rceil> - Suc i)" by linarith
    then show ?thesis
      using True "1.IH" [OF True]
      by (subst tick_loop.simps) (simp add: funpow_swap1)
  next
    case False
    then have "\<lceil>ticksPerFrame s\<rceil> \<le> int i" by (simp add: ceiling_le_iff)
    then have "nat \<lceil>ticksPerFrame s\<rceil> - i = 0" by linarith
    then show ?thesis
      using False by (subst tick_loop.simps) simp
  qed
qed

section \<open>The renderer\<close>

lemma length_row_major:
  "length (concat (map (\<lambda>row. map (f row) [0..<w]) [0..<h])) = w * h"
  by (induction h) simp_all

lemma nth_row_major:
  "row < h \<Longrightarrow> col < w \<Longrightarrow>
     concat (map (\<lambda>row. map (f row) [0..<w]) [0..<h]) ! (row * w + col) = f row col"
proof (induction h)
  case 0
  then show ?case by simp
next
  case (Suc h)
  show ?case
  proof (cases "row < h")
    case True
    then have "row * w + col < w * h" using Suc.prems(2) by (rule index_less)
    then show ?thesis
      using Suc.IH [OF True Suc.prems(2)] by (simp add: nth_append length_row_major)
  next
    case False
    then have "row = h" using Suc.prems(1) by simp
    then show ?thesis
      using Suc.prems(2) by (simp add: nth_append length_row_major mult.commute)
  qed
qed

lemma length_cell_rects: "length (cell_rects dead buffer ptr w h) = w * h"
  by (simp add: cell_rects_def length_row_major)

lemma nth_cell_rects:
  "row < h \<Longrightarrow> col < w \<Longrightarrow>
     cell_rects dead buffer ptr w h ! (row * w + col) = cell_rect dead buffer ptr w row col"
  unfolding cell_rects_def by (rule nth_row_major)

text \<open>
  C2: \<^verbatim>\<open>drawCells\<close> reads the cell buffer in the wire format. The view it takes is the
  \<open>width * height\<close> bytes at the cell pointer; \<^verbatim>\<open>getIndex\<close> addresses the cell at
  \<open>(row, col)\<close> by \<open>row * width + col\<close>, an index inside the view whose element is the
  byte of the linear memory at the pointer plus that index; and the calls it issues are
  a \<^verbatim>\<open>beginPath\<close>, one rectangle per cell in row-major order, each of
  \<^verbatim>\<open>CELL_SIZE\<close> by \<^verbatim>\<open>CELL_SIZE\<close> pixels at the cell's place and filled with the dead colour
  exactly when the element equals \<^verbatim>\<open>Cell.Dead\<close> and the alive colour otherwise, and a
  \<^verbatim>\<open>stroke\<close>. When the view does not fit the memory, the constructor of the view
  throws a RangeError and nothing is drawn.
\<close>

theorem drawCells_wire_format:
  fixes E :: "'w engine" and s :: "'w page"
  defines "buffer \<equiv> memory_buffer E (wasm s)"
    and "ptr \<equiv> universe_cells E (universe s) (wasm s)"
  defines "view \<equiv> take (width s * height s) (drop ptr buffer)"
    and "rects \<equiv> cell_rects (Cell_Dead E) buffer ptr (width s) (height s)"
  shows "(ptr + width s * height s \<le> length buffer \<longrightarrow>
            Uint8Array buffer ptr (width s * height s) = Inr view
          \<and> length view = width s * height s
          \<and> (\<exists>c. drawCells E s = Inr (s\<lparr>ctx := c\<rparr>)
                 \<and> strokeStyle c = strokeStyle (ctx s)
                 \<and> ops c = ops (ctx s) @ [BeginPath] @ rects @ [Stroke (strokeStyle (ctx s))])
          \<and> length rects = width s * height s
          \<and> (\<forall>row col. row < height s \<and> col < width s \<longrightarrow>
                 getIndex s row col = row * width s + col
               \<and> getIndex s row col < length view
               \<and> element view (getIndex s row col) = Some (unat (buffer ! (ptr + getIndex s row col)))
               \<and> rects ! getIndex s row col =
                   FillRect (if element view (getIndex s row col) = Some (Cell_Dead E)
                             then DEAD_COLOR else ALIVE_COLOR)
                     (col * (CELL_SIZE + 1) + 1) (row * (CELL_SIZE + 1) + 1) CELL_SIZE CELL_SIZE))
       \<and> (\<not> ptr + width s * height s \<le> length buffer \<longrightarrow>
            Uint8Array buffer ptr (width s * height s) = Inl RangeError
          \<and> drawCells E s = Inl (RangeError, s))"
proof (intro conjI impI allI)
  assume "\<not> ptr + width s * height s \<le> length buffer"
  then show "Uint8Array buffer ptr (width s * height s) = Inl RangeError"
    by (simp add: Uint8Array_def)
next
  assume "\<not> ptr + width s * height s \<le> length buffer"
  then have "\<not> view_fits E s" by (simp add: view_fits_def ptr_def buffer_def)
  then show "drawCells E s = Inl (RangeError, s)" by (rule drawCells_fail)
next
  assume fits: "ptr + width s * height s \<le> length buffer"
  then show "Uint8Array buffer ptr (width s * height s) = Inr view"
    by (simp add: Uint8Array_def view_def)
  show len: "length view = width s * height s"
    using fits by (simp add: view_def)
  have "view_fits E s" using fits by (simp add: view_fits_def ptr_def buffer_def)
  from drawCells_ok [OF this]
  show "\<exists>c. drawCells E s = Inr (s\<lparr>ctx := c\<rparr>)
          \<and> strokeStyle c = strokeStyle (ctx s)
          \<and> ops c = ops (ctx s) @ [BeginPath] @ rects @ [Stroke (strokeStyle (ctx s))]"
    unfolding rects_def ptr_def buffer_def by blast
  show "length rects = width s * height s"
    by (simp add: rects_def length_cell_rects)
  fix row col
  assume rc: "row < height s \<and> col < width s"
  then have r: "row < height s" and c: "col < width s" by simp_all
  show "getIndex s row col = row * width s + col" by (simp add: getIndex_def)
  show "getIndex s row col < length view"
    using index_less [OF r c] len by (simp add: getIndex_def)
  show el: "element view (getIndex s row col) = Some (unat (buffer ! (ptr + getIndex s row col)))"
    unfolding view_def getIndex_def by (rule element_view [OF fits r c])
  show "rects ! getIndex s row col =
          FillRect (if element view (getIndex s row col) = Some (Cell_Dead E)
                    then DEAD_COLOR else ALIVE_COLOR)
            (col * (CELL_SIZE + 1) + 1) (row * (CELL_SIZE + 1) + 1) CELL_SIZE CELL_SIZE"
    using el nth_cell_rects [OF r c, of "Cell_Dead E" buffer ptr]
    by (simp add: rects_def getIndex_def cell_rect_def DEAD_COLOR_def ALIVE_COLOR_def
        CELL_SIZE_def)
qed

section \<open>Rounding to double precision\<close>

lemma pow2_pos: "0 < pow2 k"
  by (simp add: pow2_def)

lemma pow2_nat: "pow2 (int k) = 2 ^ k"
  by (simp add: pow2_def)

lemma pow2_powi: "pow2 k = 2 powi k"
  by (simp add: pow2_def power_int_def field_simps)

lemma pow2_mono: "a \<le> b \<Longrightarrow> pow2 a \<le> pow2 b"
  unfolding pow2_powi by (rule power_int_increasing) simp_all

text \<open>Rounding to an integer moves a number by a half at most, and not below zero.\<close>

lemma round_even_error: "\<bar>of_int (round_even y) - y\<bar> \<le> 1 / 2"
proof -
  have "of_int \<lfloor>y\<rfloor> \<le> y" and "y < of_int \<lfloor>y\<rfloor> + 1"
    by linarith+
  then show ?thesis
    by (auto simp add: round_even_def Let_def abs_le_iff)
qed


lemma bit_length_le: "n < 2 ^ k \<Longrightarrow> bit_length n \<le> k"
proof (induction k arbitrary: n)
  case 0
  then show ?case by (simp add: bit_length.simps)
next
  case (Suc k)
  from Suc.prems have "n div 2 < 2 ^ k" by simp
  then have "bit_length (n div 2) \<le> k" by (rule Suc.IH)
  then show ?case by (subst bit_length.simps) simp
qed

lemma expo_le: "x < 2 ^ k \<Longrightarrow> expo x \<le> int k"
proof (cases "1 \<le> x")
  case True
  assume "x < 2 ^ k"
  then have "\<lfloor>x\<rfloor> < 2 ^ k"
    by (simp add: floor_less_iff)
  then have "bit_length \<lfloor>x\<rfloor> \<le> k" by (rule bit_length_le)
  with True show ?thesis by (simp add: expo_def)
next
  case False
  then show ?thesis by (simp add: expo_def)
qed


text \<open>A number below \<open>2^k\<close> is moved by \<open>2^(k-1)\<close> at most, so it stays below \<open>2^(k+1)\<close>.\<close>

lemma to_double_error:
  assumes "\<bar>x\<bar> < 2 ^ k"
  shows "\<bar>to_double x - x\<bar> \<le> 2 ^ k / 2"
proof (cases "x = 0")
  case True
  then show ?thesis by (simp add: to_double_def)
next
  case False
  define q where "q = pow2 (max (expo \<bar>x\<bar>) (- 1022) - 52)"
  have q: "0 < q" by (simp add: q_def pow2_pos)
  have "expo \<bar>x\<bar> \<le> int k" using assms by (rule expo_le)
  then have "max (expo \<bar>x\<bar>) (- 1022) - 52 \<le> int k" by simp
  then have "q \<le> pow2 (int k)" unfolding q_def by (rule pow2_mono)
  then have qk: "q \<le> 2 ^ k" by (simp add: pow2_nat)
  have "to_double x - x = (of_int (round_even (x / q)) - x / q) * q"
    using q False by (simp add: to_double_def q_def Let_def field_simps)
  then have "\<bar>to_double x - x\<bar> = \<bar>of_int (round_even (x / q)) - x / q\<bar> * q"
    using q by (simp add: abs_mult)
  also have "\<dots> \<le> 1 / 2 * q"
    using q round_even_error [of "x / q"] by (intro mult_right_mono) simp_all
  also have "\<dots> \<le> 2 ^ k / 2" using qk by simp
  finally show ?thesis .
qed

lemma to_double_bound:
  assumes "\<bar>x\<bar> < 2 ^ k"
  shows "\<bar>to_double x\<bar> < 2 ^ Suc k"
proof -
  have "0 < (2::rat) ^ k" by simp
  with to_double_error [OF assms] assms show ?thesis by (simp add: abs_if split: if_splits)
qed

lemma js_number_finite:
  assumes "\<bar>x\<bar> < 2 ^ 1023"
  shows "js_number x = Num (to_double x)"
proof -
  from to_double_bound [OF assms] have "\<bar>to_double x\<bar> < 2 ^ 1024" by simp
  then show ?thesis by (simp add: js_number_def Let_def abs_less_iff)
qed


lemma below_2_500: "\<bar>x\<bar> < 2 ^ 500 \<Longrightarrow> \<bar>x :: rat\<bar> < 2 ^ 1023"
  by (erule less_trans) simp

text \<open>
  One coordinate of the click handler, from the subtraction to the minimum, when no
  operation overflows: every operator rounds its result.
\<close>

lemma click_axis_finite:
  assumes r: "0 < r" and d: "\<bar>a - b\<bar> < 2 ^ 500" and c: "of_nat c / r < 2 ^ 500"
  shows "Math_min (Math_floor (js_div (js_mul (js_sub (Num a) (Num b))
                                              (js_div (Num (of_nat c)) (Num r)))
                                      (Num (of_nat (CELL_SIZE + 1)))))
                  (Num (of_int (int n - 1)))
         = Num (of_int (min \<lfloor>to_double (to_double (to_double (a - b) * to_double (of_nat c / r))
                                          / of_nat (CELL_SIZE + 1))\<rfloor>
                            (int n - 1)))"
proof -
  define x where "x = to_double (a - b)"
  define y where "y = to_double (of_nat c / r)"
  define z where "z = to_double (x * y)"
  have sub: "js_sub (Num a) (Num b) = Num x"
    using js_number_finite [OF below_2_500 [OF d]] by (simp add: x_def)
  have "0 \<le> of_nat c / r" using r by simp
  then have c': "\<bar>of_nat c / r\<bar> < 2 ^ 500" using c by simp
  have scale: "js_div (Num (of_nat c)) (Num r) = Num y"
    using r js_number_finite [OF below_2_500 [OF c']] by (simp add: y_def)
  have x: "\<bar>x\<bar> < 2 ^ 501" using to_double_bound [OF d] by (simp add: x_def)
  have y: "\<bar>y\<bar> < 2 ^ 501" using to_double_bound [OF c'] by (simp add: y_def)
  have "\<bar>x\<bar> * \<bar>y\<bar> < 2 ^ 501 * 2 ^ 501" using x y by (rule abs_mult_less)
  then have xy: "\<bar>x * y\<bar> < 2 ^ 1002" by (simp add: abs_mult power_add [symmetric])
  then have "\<bar>x * y\<bar> < 2 ^ 1023" by (rule less_trans) simp
  then have mul: "js_mul (Num x) (Num y) = Num z"
    using js_number_finite by (simp add: z_def)
  have z: "\<bar>z\<bar> < 2 ^ 1003" using to_double_bound [OF xy] by (simp add: z_def)
  have "\<bar>z / 6\<bar> \<le> \<bar>z\<bar>" by simp
  then have "\<bar>z / 6\<bar> < 2 ^ 1003" using z by (rule le_less_trans)
  then have "\<bar>z / 6\<bar> < 2 ^ 1023" by (rule less_trans) simp
  then have "js_div (Num z) (Num (of_nat (CELL_SIZE + 1))) = Num (to_double (z / 6))"
    using js_number_finite by (simp add: CELL_SIZE_def)
  then show ?thesis
    unfolding sub scale mul by (simp add: of_int_min x_def y_def z_def CELL_SIZE_def)
qed


section \<open>The handlers\<close>

lemma view_fits_ctx [simp]: "view_fits E (s\<lparr>ctx := c\<rparr>) = view_fits E s"
  by (simp add: view_fits_def)

lemma frame_ops_ctx [simp]: "frame_ops E (s\<lparr>ctx := c\<rparr>) = frame_ops E s"
  by (simp add: frame_ops_def)

lemma frame_ops_requests [simp]:
  "frame_ops E (s\<lparr>frame_requests := r\<rparr>) = frame_ops E s"
  "frame_ops E (s\<lparr>next_request_id := n\<rparr>) = frame_ops E s"
  "frame_ops E (s\<lparr>animationId := a\<rparr>) = frame_ops E s"
  "frame_ops E (s\<lparr>playPauseButton_textContent := t\<rparr>) = frame_ops E s"
  by (simp_all add: frame_ops_def)

lemma pause_eq:
  "pause s = s\<lparr>playPauseButton_textContent := PLAY_GLYPH,
               frame_requests := (case animationId s of None \<Rightarrow> frame_requests s
                                  | Some i \<Rightarrow> removeAll i (frame_requests s)),
               animationId := None\<rparr>"
  by (cases "animationId s") (simp_all add: pause_def cancelAnimationFrame_def Let_def)

lemma no_cells_in_grid_lines: "filter is_FillRect (grid_lines w h) = []"
  by (simp add: grid_lines_def filter_concat del: upt_Suc)

lemma redraw_cases:
  "(view_fits E s \<and> (\<exists>c. drawCells E (drawGrid s) = Inr (s\<lparr>ctx := c\<rparr>)
                          \<and> ops c = ops (ctx s) @ frame_ops E s))
   \<or> (\<not> view_fits E s \<and> (\<exists>c. drawCells E (drawGrid s) = Inl (RangeError, s\<lparr>ctx := c\<rparr>)
                          \<and> ops c = ops (ctx s) @ grid_lines (width s) (height s)))"
proof (cases "view_fits E s")
  case True
  from redraw_ok [OF this] show ?thesis using True by blast
next
  case False
  have "drawCells E (drawGrid s)
          = Inl (RangeError, s\<lparr>ctx := (ctx s)\<lparr>strokeStyle := GRID_COLOR,
                    ops := ops (ctx s) @ grid_lines (width s) (height s)\<rparr>\<rparr>)"
    using redraw_fail [OF False] by (simp add: drawGrid_eq)
  moreover have "ops ((ctx s)\<lparr>strokeStyle := GRID_COLOR,
                    ops := ops (ctx s) @ grid_lines (width s) (height s)\<rparr>)
                   = ops (ctx s) @ grid_lines (width s) (height s)"
    by simp
  ultimately show ?thesis using False by blast
qed

lemma redraw_returns:
  assumes "drawCells E (drawGrid s) = Inr s'"
  shows "(\<exists>c. s' = s\<lparr>ctx := c\<rparr>) \<and> ops (ctx s') = ops (ctx s) @ frame_ops E s'"
  using redraw_cases [of E s] assms by auto

lemma redraw_throws:
  assumes "drawCells E (drawGrid s) = Inl (e, s')"
  shows "(\<exists>c. s' = s\<lparr>ctx := c\<rparr>)
         \<and> filter is_FillRect (ops (ctx s')) = filter is_FillRect (ops (ctx s))"
  using redraw_cases [of E s] assms by (auto simp add: no_cells_in_grid_lines)

lemma after_redraw: "\<exists>c. after (drawCells E (drawGrid s)) = s\<lparr>ctx := c\<rparr>"
  using redraw_cases [of E s] by auto

lemma settings_simps [simp]:
  "settings (s\<lparr>ctx := c\<rparr>) = settings s"
  "settings (s\<lparr>wasm := w\<rparr>) = settings s"
  "settings (s\<lparr>universe := u\<rparr>) = settings s"
  "settings (s\<lparr>animationId := a\<rparr>) = settings s"
  "settings (s\<lparr>frame_requests := r\<rparr>) = settings s"
  "settings (s\<lparr>next_request_id := n\<rparr>) = settings s"
  "settings (s\<lparr>playPauseButton_textContent := t\<rparr>) = settings s"
  by (simp_all add: settings_def dimensions_def ticks_def)

lemma settings_redraw: "settings (after (drawCells E (drawGrid s))) = settings s"
  using after_redraw [of E s] by auto

lemma settings_pause: "settings (pause s) = settings s"
  by (simp add: pause_eq)

lemma settings_updateTicks:
  "settings (updateTicks s)
     = (dimensions s, ticksFrameInputRange_value s, ticksFrameInputRange_value s,
        ticksFrameInputRange_value s)"
  by (simp add: updateTicks_def Let_def settings_def dimensions_def ticks_def)

lemma settings_renderLoop: "settings (after (renderLoop E s)) = settings s"
proof -
  define ticked where "ticked = tick_loop E 0 s"
  have t: "settings ticked = settings s" by (simp add: ticked_def tick_loop_eq)
  show ?thesis
  proof (cases "drawCells E (drawGrid ticked)")
    case (Inl x)
    then have "after (renderLoop E s) = after (drawCells E (drawGrid ticked))"
      by (simp add: renderLoop_def ticked_def)
    then show ?thesis using settings_redraw [of E ticked] t by simp
  next
    case (Inr s1)
    then have "settings (after (renderLoop E s)) = settings s1"
      by (simp add: renderLoop_def ticked_def requestAnimationFrame_def)
    moreover have "settings s1 = settings ticked"
      using settings_redraw [of E ticked] Inr by simp
    ultimately show ?thesis using t by simp
  qed
qed

lemma settings_frames:
  "settings (fold (\<lambda>h s'. after (renderLoop E s')) hs s) = settings s"
  by (induction hs arbitrary: s) (simp_all add: settings_renderLoop)

lemma settings_react:
  "settings (react E ev s)
     = (case ev of TicksInput v \<Rightarrow> (dimensions s, v, v, v) | _ \<Rightarrow> settings s)"
proof (cases ev)
  case PlayPauseClick
  then show ?thesis
    using settings_renderLoop [of E "s\<lparr>playPauseButton_textContent := PAUSE_GLYPH\<rparr>"]
    by (simp add: playPauseClick_def play_def settings_pause)
next
  case (TicksInput v)
  then show ?thesis by (simp add: settings_updateTicks dimensions_def)
next
  case ResetClick
  then show ?thesis
    using settings_redraw [of E "s\<lparr>wasm := snd (Universe_random_universe E (wasm s)),
                                     universe := fst (Universe_random_universe E (wasm s))\<rparr>"]
    by (simp add: resetClick_def split_beta)
next
  case KillClick
  then show ?thesis
    using settings_redraw [of E "(pause s)\<lparr>wasm := universe_kill_universe E (universe s) (wasm s)\<rparr>"]
    by (simp add: killClick_def Let_def pause_eq)
next
  case (CanvasClick event boundingRect)
  obtain r w where tg: "universe_toggle_cell E (universe s) (fst (click_cell s event boundingRect))
        (snd (click_cell s event boundingRect)) (wasm s) = (r, w)"
    by (cases "universe_toggle_cell E (universe s) (fst (click_cell s event boundingRect))
        (snd (click_cell s event boundingRect)) (wasm s)")
  show ?thesis
    using CanvasClick tg settings_redraw [of E "s\<lparr>wasm := w\<rparr>"]
    by (cases r) (simp_all add: canvasClick_def split_beta)
next
  case AnimationFrame
  then show ?thesis by (simp add: settings_frames)
qed

lemma dimensions_react: "dimensions (react E ev s) = dimensions s"
  using settings_react [of E ev s] by (cases ev) (simp_all add: settings_def)

lemma dimensions_run: "dimensions (run E evs s) = dimensions s"
  unfolding run_def by (induction evs arbitrary: s) (simp_all add: dimensions_react)

lemma ticks_react:
  "ticksPerFrame s = ticksFrameInputRange_value s
     \<Longrightarrow> ticksPerFrame (react E ev s) = ticksFrameInputRange_value (react E ev s)"
  using settings_react [of E ev s] by (cases ev) (simp_all add: settings_def ticks_def)

lemma ticks_run:
  "ticksPerFrame s = ticksFrameInputRange_value s
     \<Longrightarrow> ticksPerFrame (run E evs s) = ticksFrameInputRange_value (run E evs s)"
  unfolding run_def by (induction evs arbitrary: s) (simp_all add: ticks_react)

lemma settings_startup: "settings (after (startup E p)) = settings (updateTicks (declarations E p))"
proof -
  define s where "s = updateTicks (declarations E p)"
  have s: "settings s = settings (updateTicks (declarations E p))"
    by (simp add: s_def)
  show ?thesis
  proof (cases "drawCells E (drawGrid s)")
    case (Inl x)
    then have "after (startup E p) = after (drawCells E (drawGrid s))"
      by (simp add: startup_def s_def)
    then show ?thesis using settings_redraw [of E s] s by simp
  next
    case (Inr s1)
    then have "after (startup E p)
                 = after (renderLoop E (s1\<lparr>playPauseButton_textContent := PAUSE_GLYPH\<rparr>))"
      by (simp add: startup_def s_def play_def)
    moreover have "settings s1 = settings s"
      using settings_redraw [of E s] Inr by simp
    ultimately show ?thesis
      using settings_renderLoop [of E "s1\<lparr>playPauseButton_textContent := PAUSE_GLYPH\<rparr>"] s
      by simp
  qed
qed

lemma dimensions_startup: "dimensions (after (startup E p)) = dimensions (declarations E p)"
  using settings_startup [of E p] settings_updateTicks [of "declarations E p"]
  by (simp add: settings_def)

lemma ticks_startup:
  "ticksPerFrame (after (startup E p)) = ticksFrameInputRange_value (after (startup E p))"
  using settings_startup [of E p] settings_updateTicks [of "declarations E p"]
  by (simp add: settings_def ticks_def)

lemma renderLoop_ok:
  assumes "view_fits E (tick_loop E 0 s)"
  shows "\<exists>c. renderLoop E s =
               Inr ((tick_loop E 0 s)\<lparr>ctx := c,
                     frame_requests := frame_requests s @ [next_request_id s],
                     next_request_id := Suc (next_request_id s),
                     animationId := Some (next_request_id s)\<rparr>)
           \<and> ops c = ops (ctx s) @ frame_ops E (tick_loop E 0 s)"
proof -
  from redraw_ok [OF assms] obtain c where
    c: "drawCells E (drawGrid (tick_loop E 0 s)) = Inr ((tick_loop E 0 s)\<lparr>ctx := c\<rparr>)"
       "ops c = ops (ctx (tick_loop E 0 s)) @ frame_ops E (tick_loop E 0 s)"
    by blast
  have "renderLoop E s =
          Inr ((tick_loop E 0 s)\<lparr>ctx := c,
                frame_requests := frame_requests s @ [next_request_id s],
                next_request_id := Suc (next_request_id s),
                animationId := Some (next_request_id s)\<rparr>)"
    using c(1) by (simp add: renderLoop_def requestAnimationFrame_def tick_loop_eq)
  moreover have "ops c = ops (ctx s) @ frame_ops E (tick_loop E 0 s)"
    using c(2) by (simp add: tick_loop_eq)
  ultimately show ?thesis by blast
qed

lemma resetClick_eq:
  "resetClick E s =
     drawCells E (drawGrid (s\<lparr>wasm := snd (Universe_random_universe E (wasm s)),
                              universe := fst (Universe_random_universe E (wasm s))\<rparr>))"
  by (simp add: resetClick_def split_beta)

lemma killClick_eq:
  "killClick E s =
     drawCells E (drawGrid ((pause s)\<lparr>wasm := universe_kill_universe E (universe s) (wasm s)\<rparr>))"
  by (simp add: killClick_def Let_def pause_eq)

text \<open>
  C3: one run of \<^verbatim>\<open>renderLoop\<close> applies \<^verbatim>\<open>universe.tick()\<close> once for every
  \<open>i = 0, 1, ...\<close> below \<^verbatim>\<open>ticksPerFrame\<close>, that is \<^verbatim>\<open>ticksPerFrame\<close> times when it is
  a natural number, and only then draws: the calls on the canvas are those of one frame,
  the grid lines and the cells as the memory holds them after the last tick, and the next
  animation frame is requested after that. An animation frame with one request pending
  is one such run. \<^verbatim>\<open>ticksPerFrame\<close> is declared as 1, an input
  event of the slider sets it to the slider's value, and after the module has run and
  after any events it is the value of the slider.
\<close>

theorem renderLoop_frame:
  fixes E :: "'w engine" and s :: "'w page"
  defines "n \<equiv> nat \<lceil>ticksPerFrame s\<rceil>"
  defines "ticked \<equiv> s\<lparr>wasm := (universe_tick E (universe s) ^^ n) (wasm s)\<rparr>"
  shows "tick_loop E 0 s = ticked
       \<and> (\<forall>k. ticksPerFrame s = of_nat k \<longrightarrow> n = k)
       \<and> (view_fits E ticked \<longrightarrow>
            (\<exists>c. renderLoop E s =
                    Inr (ticked\<lparr>ctx := c,
                          frame_requests := frame_requests s @ [next_request_id s],
                          next_request_id := Suc (next_request_id s),
                          animationId := Some (next_request_id s)\<rparr>)
                \<and> ops c = ops (ctx s) @ frame_ops E ticked))
       \<and> (\<not> view_fits E ticked \<longrightarrow> renderLoop E s = Inl (RangeError, drawGrid ticked))
       \<and> (\<forall>h. frame_requests s = [h] \<longrightarrow>
             react E AnimationFrame s = after (renderLoop E (s\<lparr>frame_requests := []\<rparr>)))
       \<and> ticksPerFrame (declarations E p) = 1
       \<and> ticksPerFrame (react E (TicksInput v) s) = v
       \<and> ticksPerFrame (run E evs (after (startup E p)))
           = ticksFrameInputRange_value (run E evs (after (startup E p)))"
proof (intro conjI impI allI)
  show loop: "tick_loop E 0 s = ticked"
    by (simp add: tick_loop_eq ticked_def n_def)
  show "n = k" if "ticksPerFrame s = of_nat k" for k
    using that by (simp add: n_def)
  show "renderLoop E s = Inl (RangeError, drawGrid ticked)" if "\<not> view_fits E ticked"
    using redraw_fail [OF that] by (simp add: renderLoop_def loop)
  show "\<exists>c. renderLoop E s =
                    Inr (ticked\<lparr>ctx := c,
                          frame_requests := frame_requests s @ [next_request_id s],
                          next_request_id := Suc (next_request_id s),
                          animationId := Some (next_request_id s)\<rparr>)
                \<and> ops c = ops (ctx s) @ frame_ops E ticked"
    if "view_fits E ticked"
    using renderLoop_ok [of E s] that by (simp add: loop)
  show "react E AnimationFrame s = after (renderLoop E (s\<lparr>frame_requests := []\<rparr>))"
    if "frame_requests s = [h]" for h
    using that by simp
  show "ticksPerFrame (declarations E p) = 1"
    by (simp add: declarations_def split_beta Let_def)
  show "ticksPerFrame (react E (TicksInput v) s) = v"
    by (simp add: updateTicks_def Let_def)
  show "ticksPerFrame (run E evs (after (startup E p)))
           = ticksFrameInputRange_value (run E evs (after (startup E p)))"
    by (rule ticks_run [OF ticks_startup])
qed

text \<open>
  C4, amended: the reset handler calls the constructor \<^verbatim>\<open>Universe.random_universe()\<close> and
  makes the universe it returns the current one; the kill handler pauses and calls
  \<^verbatim>\<open>kill_universe()\<close> on the current universe. Both then draw one frame, the grid lines
  and the cells of the universe that is current after the call, before they return,
  when the view of the cells fits the memory; when it does not, they throw a RangeError
  after the grid lines.
\<close>

theorem reset_and_kill_redraw:
  fixes E :: "'w engine" and s :: "'w page"
  defines "fresh \<equiv> s\<lparr>wasm := snd (Universe_random_universe E (wasm s)),
                      universe := fst (Universe_random_universe E (wasm s))\<rparr>"
      and "killed \<equiv> (pause s)\<lparr>wasm := universe_kill_universe E (universe s) (wasm s)\<rparr>"
  shows "(view_fits E fresh \<longrightarrow>
            (\<exists>c. resetClick E s = Inr (fresh\<lparr>ctx := c\<rparr>)
                \<and> ops c = ops (ctx s) @ frame_ops E fresh))
       \<and> (\<not> view_fits E fresh \<longrightarrow> resetClick E s = Inl (RangeError, drawGrid fresh))
       \<and> (view_fits E killed \<longrightarrow>
            (\<exists>c. killClick E s = Inr (killed\<lparr>ctx := c\<rparr>)
                \<and> ops c = ops (ctx s) @ frame_ops E killed))
       \<and> (\<not> view_fits E killed \<longrightarrow> killClick E s = Inl (RangeError, drawGrid killed))"
proof (intro conjI impI)
  have r: "resetClick E s = drawCells E (drawGrid fresh)"
    unfolding fresh_def by (rule resetClick_eq)
  have k: "killClick E s = drawCells E (drawGrid killed)"
    unfolding killed_def by (rule killClick_eq)
  show "\<exists>c. resetClick E s = Inr (fresh\<lparr>ctx := c\<rparr>) \<and> ops c = ops (ctx s) @ frame_ops E fresh"
    if "view_fits E fresh"
    using redraw_ok [OF that] unfolding r by (auto simp add: fresh_def)
  show "resetClick E s = Inl (RangeError, drawGrid fresh)" if "\<not> view_fits E fresh"
    unfolding r by (rule redraw_fail [OF that])
  show "\<exists>c. killClick E s = Inr (killed\<lparr>ctx := c\<rparr>) \<and> ops c = ops (ctx s) @ frame_ops E killed"
    if "view_fits E killed"
    using redraw_ok [OF that] unfolding k by (auto simp add: killed_def pause_eq)
  show "killClick E s = Inl (RangeError, drawGrid killed)" if "\<not> view_fits E killed"
    unfolding k by (rule redraw_fail [OF that])
qed

lemma canvasClick_eq:
  "canvasClick E event boundingRect s =
     (case universe_toggle_cell E (universe s) (fst (click_cell s event boundingRect))
             (snd (click_cell s event boundingRect)) (wasm s) of
        (Some e, w) \<Rightarrow> Inl (EngineError e, s\<lparr>wasm := w\<rparr>)
      | (None, w) \<Rightarrow> drawCells E (drawGrid (s\<lparr>wasm := w\<rparr>)))"
  by (simp add: canvasClick_def split_beta)

text \<open>
  C5: each of the four handlers that change the universe (the animation frame, the click
  on a cell, reset and kill) first carries out its whole mutation (all ticks of the
  batch, the toggle, the new universe, the cleared universe) and then, before it
  returns, draws one frame of exactly the state the mutation has left: when the view of
  the cells fits the memory the handler returns, the engine is in that state, and the
  calls it has added to the canvas are the frame of that state and nothing else. When the
  view does not fit, the handler throws a RangeError after the grid lines, and when the
  engine refuses the toggle the click handler throws the engine's error and draws
  nothing. Conversely, whenever a handler returns, the engine is in the state after the
  mutation and the calls added are one frame of it, and whenever a handler throws, it
  has painted no cell at all.
\<close>

theorem draws_after_completed_mutation:
  fixes E :: "'w engine" and s :: "'w page" and event :: mouse_event and boundingRect :: dom_rect
  defines "ticked \<equiv> s\<lparr>wasm := (universe_tick E (universe s) ^^ nat \<lceil>ticksPerFrame s\<rceil>) (wasm s)\<rparr>"
      and "toggled \<equiv> universe_toggle_cell E (universe s) (fst (click_cell s event boundingRect))
                        (snd (click_cell s event boundingRect)) (wasm s)"
      and "fresh \<equiv> s\<lparr>wasm := snd (Universe_random_universe E (wasm s)),
                      universe := fst (Universe_random_universe E (wasm s))\<rparr>"
      and "killed \<equiv> (pause s)\<lparr>wasm := universe_kill_universe E (universe s) (wasm s)\<rparr>"
  shows
   "(view_fits E ticked \<longrightarrow>
       (\<exists>c. renderLoop E s =
               Inr (ticked\<lparr>ctx := c,
                     frame_requests := frame_requests s @ [next_request_id s],
                     next_request_id := Suc (next_request_id s),
                     animationId := Some (next_request_id s)\<rparr>)
           \<and> ops c = ops (ctx s) @ frame_ops E ticked))
  \<and> (\<not> view_fits E ticked \<longrightarrow> renderLoop E s = Inl (RangeError, drawGrid ticked))
  \<and> (fst toggled = None \<and> view_fits E (s\<lparr>wasm := snd toggled\<rparr>) \<longrightarrow>
       (\<exists>c. canvasClick E event boundingRect s = Inr (s\<lparr>wasm := snd toggled, ctx := c\<rparr>)
           \<and> ops c = ops (ctx s) @ frame_ops E (s\<lparr>wasm := snd toggled\<rparr>)))
  \<and> (fst toggled = None \<and> \<not> view_fits E (s\<lparr>wasm := snd toggled\<rparr>) \<longrightarrow>
       canvasClick E event boundingRect s = Inl (RangeError, drawGrid (s\<lparr>wasm := snd toggled\<rparr>)))
  \<and> (\<forall>err. fst toggled = Some err \<longrightarrow>
       canvasClick E event boundingRect s = Inl (EngineError err, s\<lparr>wasm := snd toggled\<rparr>))
  \<and> (view_fits E fresh \<longrightarrow>
       (\<exists>c. resetClick E s = Inr (fresh\<lparr>ctx := c\<rparr>)
           \<and> ops c = ops (ctx s) @ frame_ops E fresh))
  \<and> (\<not> view_fits E fresh \<longrightarrow> resetClick E s = Inl (RangeError, drawGrid fresh))
  \<and> (view_fits E killed \<longrightarrow>
       (\<exists>c. killClick E s = Inr (killed\<lparr>ctx := c\<rparr>)
           \<and> ops c = ops (ctx s) @ frame_ops E killed))
  \<and> (\<not> view_fits E killed \<longrightarrow> killClick E s = Inl (RangeError, drawGrid killed))
  \<and> (renderLoop E s = Inr s' \<longrightarrow>
      wasm s' = (universe_tick E (universe s) ^^ nat \<lceil>ticksPerFrame s\<rceil>) (wasm s)
    \<and> universe s' = universe s
    \<and> ops (ctx s') = ops (ctx s) @ frame_ops E s')
  \<and> (canvasClick E event boundingRect s = Inr s' \<longrightarrow>
      universe_toggle_cell E (universe s) (fst (click_cell s event boundingRect))
        (snd (click_cell s event boundingRect)) (wasm s) = (None, wasm s')
    \<and> universe s' = universe s
    \<and> ops (ctx s') = ops (ctx s) @ frame_ops E s')
  \<and> (resetClick E s = Inr s' \<longrightarrow>
      Universe_random_universe E (wasm s) = (universe s', wasm s')
    \<and> ops (ctx s') = ops (ctx s) @ frame_ops E s')
  \<and> (killClick E s = Inr s' \<longrightarrow>
      wasm s' = universe_kill_universe E (universe s) (wasm s)
    \<and> universe s' = universe s
    \<and> ops (ctx s') = ops (ctx s) @ frame_ops E s')
  \<and> (renderLoop E s = Inl (e, s') \<or> canvasClick E event boundingRect s = Inl (e, s')
      \<or> resetClick E s = Inl (e, s') \<or> killClick E s = Inl (e, s') \<longrightarrow>
      filter is_FillRect (ops (ctx s')) = filter is_FillRect (ops (ctx s)))"
proof (intro conjI impI allI)
  have loop: "tick_loop E 0 s = ticked"
    by (simp add: ticked_def tick_loop_eq)
  have reset_eq: "resetClick E s = drawCells E (drawGrid fresh)"
    unfolding fresh_def by (rule resetClick_eq)
  have kill_eq: "killClick E s = drawCells E (drawGrid killed)"
    unfolding killed_def by (rule killClick_eq)
  have click_eq: "canvasClick E event boundingRect s =
     (case toggled of
        (Some e, w) \<Rightarrow> Inl (EngineError e, s\<lparr>wasm := w\<rparr>)
      | (None, w) \<Rightarrow> drawCells E (drawGrid (s\<lparr>wasm := w\<rparr>)))"
    unfolding toggled_def by (rule canvasClick_eq)
  show "\<exists>c. renderLoop E s =
               Inr (ticked\<lparr>ctx := c,
                     frame_requests := frame_requests s @ [next_request_id s],
                     next_request_id := Suc (next_request_id s),
                     animationId := Some (next_request_id s)\<rparr>)
           \<and> ops c = ops (ctx s) @ frame_ops E ticked"
    if "view_fits E ticked"
    using renderLoop_ok [of E s] that by (simp add: loop)
  show "renderLoop E s = Inl (RangeError, drawGrid ticked)" if "\<not> view_fits E ticked"
    using redraw_fail [OF that] by (simp add: renderLoop_def loop)
  show "\<exists>c. canvasClick E event boundingRect s = Inr (s\<lparr>wasm := snd toggled, ctx := c\<rparr>)
           \<and> ops c = ops (ctx s) @ frame_ops E (s\<lparr>wasm := snd toggled\<rparr>)"
    if "fst toggled = None \<and> view_fits E (s\<lparr>wasm := snd toggled\<rparr>)"
  proof -
    from that have "canvasClick E event boundingRect s = drawCells E (drawGrid (s\<lparr>wasm := snd toggled\<rparr>))"
      unfolding click_eq by (cases toggled) simp
    with that redraw_ok [of E "s\<lparr>wasm := snd toggled\<rparr>"] show ?thesis by auto
  qed
  show "canvasClick E event boundingRect s = Inl (RangeError, drawGrid (s\<lparr>wasm := snd toggled\<rparr>))"
    if "fst toggled = None \<and> \<not> view_fits E (s\<lparr>wasm := snd toggled\<rparr>)"
  proof -
    from that have "canvasClick E event boundingRect s = drawCells E (drawGrid (s\<lparr>wasm := snd toggled\<rparr>))"
      unfolding click_eq by (cases toggled) simp
    with that redraw_fail [of E "s\<lparr>wasm := snd toggled\<rparr>"] show ?thesis by simp
  qed
  show "canvasClick E event boundingRect s = Inl (EngineError err, s\<lparr>wasm := snd toggled\<rparr>)"
    if "fst toggled = Some err" for err
    using that unfolding click_eq by (cases toggled) simp
  show "\<exists>c. resetClick E s = Inr (fresh\<lparr>ctx := c\<rparr>) \<and> ops c = ops (ctx s) @ frame_ops E fresh"
    if "view_fits E fresh"
    using redraw_ok [OF that] unfolding reset_eq by (auto simp add: fresh_def)
  show "resetClick E s = Inl (RangeError, drawGrid fresh)" if "\<not> view_fits E fresh"
    unfolding reset_eq by (rule redraw_fail [OF that])
  show "\<exists>c. killClick E s = Inr (killed\<lparr>ctx := c\<rparr>) \<and> ops c = ops (ctx s) @ frame_ops E killed"
    if "view_fits E killed"
    using redraw_ok [OF that] unfolding kill_eq by (auto simp add: killed_def pause_eq)
  show "killClick E s = Inl (RangeError, drawGrid killed)" if "\<not> view_fits E killed"
    unfolding kill_eq by (rule redraw_fail [OF that])
  {
    assume run: "renderLoop E s = Inr s'"
    then obtain s1 where s1: "drawCells E (drawGrid ticked) = Inr s1"
      and s': "s' = (snd (requestAnimationFrame s1))\<lparr>animationId := Some (fst (requestAnimationFrame s1))\<rparr>"
      by (auto simp add: renderLoop_def loop split_beta split: sum.splits)
    from redraw_returns [OF s1] obtain c where
      c: "s1 = ticked\<lparr>ctx := c\<rparr>" "ops (ctx s1) = ops (ctx ticked) @ frame_ops E s1"
      by blast
    show "wasm s' = (universe_tick E (universe s) ^^ nat \<lceil>ticksPerFrame s\<rceil>) (wasm s)"
      by (simp add: s' c(1) ticked_def requestAnimationFrame_def)
    show "universe s' = universe s"
      by (simp add: s' c(1) ticked_def requestAnimationFrame_def)
    have "frame_ops E s' = frame_ops E s1"
      by (simp add: s' requestAnimationFrame_def)
    then show "ops (ctx s') = ops (ctx s) @ frame_ops E s'"
      using c(2) by (simp add: s' requestAnimationFrame_def ticked_def)
  }
  {
    assume run: "canvasClick E event boundingRect s = Inr s'"
    obtain r w where tg: "toggled = (r, w)"
      by (cases toggled)
    from run tg have r: "r = None" and draw: "drawCells E (drawGrid (s\<lparr>wasm := w\<rparr>)) = Inr s'"
      by (auto simp add: click_eq split: option.splits)
    from redraw_returns [OF draw] obtain c where
      c: "s' = s\<lparr>wasm := w, ctx := c\<rparr>"
         "ops (ctx s') = ops (ctx (s\<lparr>wasm := w\<rparr>)) @ frame_ops E s'"
      by blast
    show "universe_toggle_cell E (universe s) (fst (click_cell s event boundingRect))
        (snd (click_cell s event boundingRect)) (wasm s) = (None, wasm s')"
      using tg by (simp add: toggled_def r c(1))
    show "universe s' = universe s" by (simp add: c(1))
    show "ops (ctx s') = ops (ctx s) @ frame_ops E s'" using c(2) by simp
  }
  {
    assume run: "resetClick E s = Inr s'"
    from redraw_returns [OF run [unfolded reset_eq]] obtain c where
      c: "s' = fresh\<lparr>ctx := c\<rparr>" "ops (ctx s') = ops (ctx fresh) @ frame_ops E s'"
      by blast
    show "Universe_random_universe E (wasm s) = (universe s', wasm s')"
      by (simp add: c(1) fresh_def)
    show "ops (ctx s') = ops (ctx s) @ frame_ops E s'" using c(2) by (simp add: fresh_def)
  }
  {
    assume run: "killClick E s = Inr s'"
    from redraw_returns [OF run [unfolded kill_eq]] obtain c where
      c: "s' = killed\<lparr>ctx := c\<rparr>" "ops (ctx s') = ops (ctx killed) @ frame_ops E s'"
      by blast
    show "wasm s' = universe_kill_universe E (universe s) (wasm s)"
      by (simp add: c(1) killed_def)
    show "universe s' = universe s" by (simp add: c(1) killed_def pause_eq)
    show "ops (ctx s') = ops (ctx s) @ frame_ops E s'"
      using c(2) by (simp add: killed_def pause_eq)
  }
  assume "renderLoop E s = Inl (e, s') \<or> canvasClick E event boundingRect s = Inl (e, s')
      \<or> resetClick E s = Inl (e, s') \<or> killClick E s = Inl (e, s')"
  then consider
      (frame) "renderLoop E s = Inl (e, s')"
    | (click) "canvasClick E event boundingRect s = Inl (e, s')"
    | (reset) "resetClick E s = Inl (e, s')"
    | (kill) "killClick E s = Inl (e, s')"
    by blast
  then show "filter is_FillRect (ops (ctx s')) = filter is_FillRect (ops (ctx s))"
  proof cases
    case frame
    then have "drawCells E (drawGrid ticked) = Inl (e, s')"
      by (auto simp add: renderLoop_def loop split_beta split: sum.splits)
    from redraw_throws [OF this] show ?thesis by (simp add: ticked_def)
  next
    case click
    obtain r w where tg: "toggled = (r, w)"
      by (cases toggled)
    show ?thesis
    proof (cases r)
      case None
      with click tg have "drawCells E (drawGrid (s\<lparr>wasm := w\<rparr>)) = Inl (e, s')"
        by (simp add: click_eq)
      from redraw_throws [OF this] show ?thesis by simp
    next
      case (Some err)
      with click tg have "s' = s\<lparr>wasm := w\<rparr>"
        by (simp add: click_eq)
      then show ?thesis by simp
    qed
  next
    case reset
    from redraw_throws [OF reset [unfolded reset_eq]] show ?thesis by (simp add: fresh_def)
  next
    case kill
    from redraw_throws [OF kill [unfolded kill_eq]] show ?thesis by (simp add: killed_def pause_eq)
  qed
qed

text \<open>
  The row and the column of a click on a canvas that is laid out with a positive size,
  when the offset of the click and the scale are small enough for no operation to
  overflow.
\<close>

lemma click_cell_finite:
  assumes "0 < rect_width boundingRect" and "0 < rect_height boundingRect"
      and "\<bar>clientX event - rect_left boundingRect\<bar> < 2 ^ 500"
      and "\<bar>clientY event - rect_top boundingRect\<bar> < 2 ^ 500"
      and "of_nat (canvas_width s) / rect_width boundingRect < 2 ^ 500"
      and "of_nat (canvas_height s) / rect_height boundingRect < 2 ^ 500"
  shows "click_cell s event boundingRect =
     (Num (of_int (min \<lfloor>to_double (to_double (to_double (clientY event - rect_top boundingRect)
                                     * to_double (of_nat (canvas_height s) / rect_height boundingRect))
                                  / of_nat (CELL_SIZE + 1))\<rfloor>
                      (int (height s) - 1))),
      Num (of_int (min \<lfloor>to_double (to_double (to_double (clientX event - rect_left boundingRect)
                                     * to_double (of_nat (canvas_width s) / rect_width boundingRect))
                                  / of_nat (CELL_SIZE + 1))\<rfloor>
                      (int (width s) - 1))))"
  unfolding click_cell_def Let_def
  using click_axis_finite [OF assms(2,4,6), of "height s"]
    click_axis_finite [OF assms(1,3,5), of "width s"]
  by simp

text \<open>
  On a canvas laid out with no width, the scale is infinite, and a click on its left
  edge gets no column.
\<close>

lemma click_cell_zero_rect:
  assumes "rect_width boundingRect = 0" and "clientX event = rect_left boundingRect"
  shows "snd (click_cell s event boundingRect) = NaN"
  using assms by (simp add: click_cell_def Let_def js_number_def to_double_def)

text \<open>
  C6: for a click on a canvas that is laid out with a positive size, the handler
  subtracts the corner of the canvas from the position of the click, multiplies by the
  ratio of the canvas size to the size on the page, divides by the pitch
  \<^verbatim>\<open>CELL_SIZE + 1\<close>, rounds down and takes the minimum with the last row or column, where
  the difference, the ratio, the product and the quotient are each rounded to a double
  as JavaScript does (an offset and a ratio below \<open>2^500\<close> keep all of them finite); it
  calls \<^verbatim>\<open>toggle_cell\<close> on this row and column of the current universe and then draws one
  frame of the state after the toggle, returning when the view of the cells fits the
  memory. When the rounded quotient is below the number of rows or columns the minimum
  changes nothing.
\<close>

theorem canvasClick_toggles_clicked_cell:
  fixes E :: "'w engine" and s :: "'w page" and event :: mouse_event and boundingRect :: dom_rect
  defines "scaleX \<equiv> to_double (of_nat (canvas_width s) / rect_width boundingRect)"
      and "scaleY \<equiv> to_double (of_nat (canvas_height s) / rect_height boundingRect)"
  defines "canvasLeft \<equiv> to_double (to_double (clientX event - rect_left boundingRect) * scaleX)"
      and "canvasTop \<equiv> to_double (to_double (clientY event - rect_top boundingRect) * scaleY)"
  defines "row \<equiv> min \<lfloor>to_double (canvasTop / of_nat (CELL_SIZE + 1))\<rfloor> (int (height s) - 1)"
      and "col \<equiv> min \<lfloor>to_double (canvasLeft / of_nat (CELL_SIZE + 1))\<rfloor> (int (width s) - 1)"
  assumes "0 < rect_width boundingRect" and "0 < rect_height boundingRect"
      and "\<bar>clientX event - rect_left boundingRect\<bar> < 2 ^ 500"
      and "\<bar>clientY event - rect_top boundingRect\<bar> < 2 ^ 500"
      and "of_nat (canvas_width s) / rect_width boundingRect < 2 ^ 500"
      and "of_nat (canvas_height s) / rect_height boundingRect < 2 ^ 500"
  shows "click_cell s event boundingRect = (Num (of_int row), Num (of_int col))
       \<and> canvasClick E event boundingRect s =
           (case universe_toggle_cell E (universe s) (Num (of_int row)) (Num (of_int col)) (wasm s) of
              (Some e, w) \<Rightarrow> Inl (EngineError e, s\<lparr>wasm := w\<rparr>)
            | (None, w) \<Rightarrow> drawCells E (drawGrid (s\<lparr>wasm := w\<rparr>)))
       \<and> (\<forall>w. universe_toggle_cell E (universe s) (Num (of_int row)) (Num (of_int col)) (wasm s)
                 = (None, w) \<and> view_fits E (s\<lparr>wasm := w\<rparr>) \<longrightarrow>
               (\<exists>c. canvasClick E event boundingRect s = Inr (s\<lparr>wasm := w, ctx := c\<rparr>)
                   \<and> ops c = ops (ctx s) @ frame_ops E (s\<lparr>wasm := w\<rparr>)))
       \<and> (\<forall>w. universe_toggle_cell E (universe s) (Num (of_int row)) (Num (of_int col)) (wasm s)
                 = (None, w) \<and> \<not> view_fits E (s\<lparr>wasm := w\<rparr>) \<longrightarrow>
               canvasClick E event boundingRect s = Inl (RangeError, drawGrid (s\<lparr>wasm := w\<rparr>)))
       \<and> (to_double (canvasTop / of_nat (CELL_SIZE + 1)) < of_nat (height s) \<longrightarrow>
             row = \<lfloor>to_double (canvasTop / of_nat (CELL_SIZE + 1))\<rfloor>)
       \<and> (to_double (canvasLeft / of_nat (CELL_SIZE + 1)) < of_nat (width s) \<longrightarrow>
             col = \<lfloor>to_double (canvasLeft / of_nat (CELL_SIZE + 1))\<rfloor>)"
proof (intro conjI allI impI)
  show cell: "click_cell s event boundingRect = (Num (of_int row), Num (of_int col))"
    using click_cell_finite [OF assms(7-12)]
    by (simp add: row_def col_def canvasTop_def canvasLeft_def scaleX_def scaleY_def)
  show handler: "canvasClick E event boundingRect s =
           (case universe_toggle_cell E (universe s) (Num (of_int row)) (Num (of_int col)) (wasm s) of
              (Some e, w) \<Rightarrow> Inl (EngineError e, s\<lparr>wasm := w\<rparr>)
            | (None, w) \<Rightarrow> drawCells E (drawGrid (s\<lparr>wasm := w\<rparr>)))"
    by (simp add: canvasClick_def cell)
  show "\<exists>c. canvasClick E event boundingRect s = Inr (s\<lparr>wasm := w, ctx := c\<rparr>)
           \<and> ops c = ops (ctx s) @ frame_ops E (s\<lparr>wasm := w\<rparr>)"
    if "universe_toggle_cell E (universe s) (Num (of_int row)) (Num (of_int col)) (wasm s)
          = (None, w) \<and> view_fits E (s\<lparr>wasm := w\<rparr>)" for w
    using that redraw_ok [of E "s\<lparr>wasm := w\<rparr>"] by (auto simp add: handler)
  show "canvasClick E event boundingRect s = Inl (RangeError, drawGrid (s\<lparr>wasm := w\<rparr>))"
    if "universe_toggle_cell E (universe s) (Num (of_int row)) (Num (of_int col)) (wasm s)
          = (None, w) \<and> \<not> view_fits E (s\<lparr>wasm := w\<rparr>)" for w
    using that redraw_fail [of E "s\<lparr>wasm := w\<rparr>"] by (simp add: handler)
  show "row = \<lfloor>to_double (canvasTop / of_nat (CELL_SIZE + 1))\<rfloor>"
    if "to_double (canvasTop / of_nat (CELL_SIZE + 1)) < of_nat (height s)"
  proof -
    from that have "\<lfloor>to_double (canvasTop / of_nat (CELL_SIZE + 1))\<rfloor> < int (height s)"
      by (simp add: floor_less_iff)
    then show ?thesis by (simp add: row_def)
  qed
  show "col = \<lfloor>to_double (canvasLeft / of_nat (CELL_SIZE + 1))\<rfloor>"
    if "to_double (canvasLeft / of_nat (CELL_SIZE + 1)) < of_nat (width s)"
  proof -
    from that have "\<lfloor>to_double (canvasLeft / of_nat (CELL_SIZE + 1))\<rfloor> < int (width s)"
      by (simp add: floor_less_iff)
    then show ?thesis by (simp add: col_def)
  qed
qed


text \<open>
  C9: the kill handler runs \<^verbatim>\<open>pause()\<close> before it calls the engine. Whether it then
  returns or throws, \<^verbatim>\<open>animationId\<close> is \<^verbatim>\<open>null\<close> (\<^verbatim>\<open>isPaused()\<close> holds), the button
  shows the play glyph, and the frame request that \<^verbatim>\<open>animationId\<close> named is no longer
  pending. The reset handler leaves \<^verbatim>\<open>animationId\<close>, the button and the pending
  requests as they were.
\<close>

theorem kill_pauses_reset_does_not:
  "killClick E s =
     drawCells E (drawGrid ((pause s)\<lparr>wasm := universe_kill_universe E (universe s) (wasm (pause s))\<rparr>))
 \<and> animationId (pause s) = None
 \<and> playPauseButton_textContent (pause s) = PLAY_GLYPH
 \<and> (\<forall>i. animationId s = Some i \<longrightarrow> i \<notin> set (frame_requests (pause s)))
 \<and> animationId (after (killClick E s)) = None
 \<and> isPaused (after (killClick E s))
 \<and> playPauseButton_textContent (after (killClick E s)) = PLAY_GLYPH
 \<and> frame_requests (after (killClick E s)) =
       (case animationId s of None \<Rightarrow> frame_requests s
        | Some i \<Rightarrow> removeAll i (frame_requests s))
 \<and> (\<forall>i. animationId s = Some i \<longrightarrow> i \<notin> set (frame_requests (after (killClick E s))))
 \<and> animationId (after (resetClick E s)) = animationId s
 \<and> isPaused (after (resetClick E s)) = isPaused s
 \<and> playPauseButton_textContent (after (resetClick E s)) = playPauseButton_textContent s
 \<and> frame_requests (after (resetClick E s)) = frame_requests s"
proof -
  define killed where "killed = (pause s)\<lparr>wasm := universe_kill_universe E (universe s) (wasm s)\<rparr>"
  define fresh where "fresh = s\<lparr>wasm := snd (Universe_random_universe E (wasm s)),
                                 universe := fst (Universe_random_universe E (wasm s))\<rparr>"
  have first: "killClick E s =
     drawCells E (drawGrid ((pause s)\<lparr>wasm := universe_kill_universe E (universe s) (wasm (pause s))\<rparr>))"
    by (simp add: killClick_def Let_def pause_eq)
  have kill_eq: "killClick E s = drawCells E (drawGrid killed)"
    by (simp add: killClick_def killed_def Let_def pause_eq)
  have reset_eq: "resetClick E s = drawCells E (drawGrid fresh)"
    by (simp add: resetClick_def fresh_def split_beta)
  obtain c where k: "after (killClick E s) = killed\<lparr>ctx := c\<rparr>"
    unfolding kill_eq using after_redraw [of E killed] by blast
  obtain c' where r: "after (resetClick E s) = fresh\<lparr>ctx := c'\<rparr>"
    unfolding reset_eq using after_redraw [of E fresh] by blast
  have p1: "animationId (pause s) = None" by (simp add: pause_eq)
  have p2: "playPauseButton_textContent (pause s) = PLAY_GLYPH" by (simp add: pause_eq)
  have p3: "\<forall>i. animationId s = Some i \<longrightarrow> i \<notin> set (frame_requests (pause s))"
    by (simp add: pause_eq)
  have k1: "animationId (after (killClick E s)) = None" by (simp add: k killed_def pause_eq)
  have k2: "isPaused (after (killClick E s))" by (simp add: isPaused_def k1)
  have k3: "playPauseButton_textContent (after (killClick E s)) = PLAY_GLYPH"
    by (simp add: k killed_def pause_eq)
  have k4: "frame_requests (after (killClick E s)) =
       (case animationId s of None \<Rightarrow> frame_requests s
        | Some i \<Rightarrow> removeAll i (frame_requests s))"
    by (simp add: k killed_def pause_eq)
  have k5: "\<forall>i. animationId s = Some i \<longrightarrow> i \<notin> set (frame_requests (after (killClick E s)))"
    by (simp add: k4)
  have r1: "animationId (after (resetClick E s)) = animationId s" by (simp add: r fresh_def)
  have r2: "isPaused (after (resetClick E s)) = isPaused s" by (simp add: isPaused_def r1)
  have r3: "playPauseButton_textContent (after (resetClick E s)) = playPauseButton_textContent s"
    by (simp add: r fresh_def)
  have r4: "frame_requests (after (resetClick E s)) = frame_requests s" by (simp add: r fresh_def)
  from first p1 p2 p3 k1 k2 k3 k4 k5 r1 r2 r3 r4 show ?thesis by blast
qed

lemma dimensions_declarations:
  "dimensions (declarations E p) =
     (universe_width E (fst (Universe_new E (wasm p))) (snd (Universe_new E (wasm p))),
      universe_height E (fst (Universe_new E (wasm p))) (snd (Universe_new E (wasm p))),
      (CELL_SIZE + 1) * universe_width E (fst (Universe_new E (wasm p))) (snd (Universe_new E (wasm p))) + 1,
      (CELL_SIZE + 1) * universe_height E (fst (Universe_new E (wasm p))) (snd (Universe_new E (wasm p))) + 1)"
  by (simp add: declarations_def dimensions_def split_beta Let_def)

text \<open>The handlers never ask a universe for its dimensions.\<close>

lemma drawCell_blind:
  "drawCell (E\<lparr>universe_width := f, universe_height := g\<rparr>) = drawCell E"
  by (intro ext) (simp add: drawCell_def)

lemma drawCells_blind:
  "drawCells (E\<lparr>universe_width := f, universe_height := g\<rparr>) s = drawCells E s"
  by (simp add: drawCells_def drawCell_blind split: sum.splits)

lemma tick_loop_blind:
  "tick_loop (E\<lparr>universe_width := f, universe_height := g\<rparr>) i s = tick_loop E i s"
  by (simp add: tick_loop_eq)

lemma renderLoop_blind:
  "renderLoop (E\<lparr>universe_width := f, universe_height := g\<rparr>) = renderLoop E"
  by (intro ext) (simp add: renderLoop_def drawCells_blind tick_loop_blind)

lemma resetClick_blind:
  "resetClick (E\<lparr>universe_width := f, universe_height := g\<rparr>) s = resetClick E s"
  by (simp add: resetClick_def drawCells_blind)

lemma killClick_blind:
  "killClick (E\<lparr>universe_width := f, universe_height := g\<rparr>) s = killClick E s"
  by (simp add: killClick_def drawCells_blind)

lemma canvasClick_blind:
  "canvasClick (E\<lparr>universe_width := f, universe_height := g\<rparr>) event boundingRect s
     = canvasClick E event boundingRect s"
  by (simp add: canvasClick_def drawCells_blind split: prod.splits option.splits)

lemma react_blind:
  "react (E\<lparr>universe_width := f, universe_height := g\<rparr>) = react E"
proof (intro ext)
  fix ev :: event and s :: "'a page"
  show "react (E\<lparr>universe_width := f, universe_height := g\<rparr>) ev s = react E ev s"
    by (cases ev)
       (simp_all add: playPauseClick_def play_def renderLoop_blind resetClick_blind
          killClick_blind canvasClick_blind)
qed

text \<open>
  C10: the declarations read the width and the height of the first universe and size the
  canvas from them. No handler changes these four numbers, over any sequence of events,
  and no handler asks a universe for its dimensions again: replacing the engine's
  \<^verbatim>\<open>width()\<close> and \<^verbatim>\<open>height()\<close> by any other functions changes the outcome of no handler,
  the reset handler and the drawing of the cells included.
\<close>

theorem dimensions_captured_once:
  "dimensions (declarations E p) =
     (universe_width E (fst (Universe_new E (wasm p))) (snd (Universe_new E (wasm p))),
      universe_height E (fst (Universe_new E (wasm p))) (snd (Universe_new E (wasm p))),
      (CELL_SIZE + 1) * universe_width E (fst (Universe_new E (wasm p))) (snd (Universe_new E (wasm p))) + 1,
      (CELL_SIZE + 1) * universe_height E (fst (Universe_new E (wasm p))) (snd (Universe_new E (wasm p))) + 1)
 \<and> dimensions (after (startup E p)) = dimensions (declarations E p)
 \<and> dimensions (run E evs s) = dimensions s
 \<and> dimensions (after (resetClick E s)) = dimensions s
 \<and> run (E\<lparr>universe_width := f, universe_height := g\<rparr>) evs s = run E evs s
 \<and> renderLoop (E\<lparr>universe_width := f, universe_height := g\<rparr>) s = renderLoop E s
 \<and> resetClick (E\<lparr>universe_width := f, universe_height := g\<rparr>) s = resetClick E s
 \<and> killClick (E\<lparr>universe_width := f, universe_height := g\<rparr>) s = killClick E s
 \<and> canvasClick (E\<lparr>universe_width := f, universe_height := g\<rparr>) event boundingRect s
       = canvasClick E event boundingRect s
 \<and> drawCells (E\<lparr>universe_width := f, universe_height := g\<rparr>) s = drawCells E s"
proof -
  have "dimensions (after (resetClick E s)) = dimensions s"
    using dimensions_react [of E ResetClick s] by simp
  moreover have "run (E\<lparr>universe_width := f, universe_height := g\<rparr>) evs s = run E evs s"
    by (simp add: run_def react_blind)
  ultimately show ?thesis
    by (simp only: dimensions_declarations dimensions_startup dimensions_run renderLoop_blind
        resetClick_blind killClick_blind canvasClick_blind drawCells_blind simp_thms)
qed

section \<open>The driver on a concrete page\<close>

lemma floor_rat_numeral:
  "\<lfloor>(numeral a :: rat) / numeral b\<rfloor> = numeral a div numeral b"
  "\<lfloor>(1 :: rat) / numeral b\<rfloor> = 1 div numeral b"
  using floor_divide_of_int_eq [of "numeral a" "numeral b", where ?'a = rat]
    floor_divide_of_int_eq [of 1 "numeral b", where ?'a = rat]
  by simp_all

lemma floor_rat_neg_numeral:
  "\<lfloor>- ((numeral a :: rat) / numeral b)\<rfloor> = (- numeral a) div numeral b"
  using floor_divide_of_int_eq [of "- numeral a" "numeral b", where ?'a = rat] by simp

lemma ceiling_rat_numeral:
  "\<lceil>(numeral a :: rat) / numeral b\<rceil> = - ((- numeral a) div numeral b)"
  using floor_divide_of_int_eq [of "- numeral a" "numeral b", where ?'a = rat]
  by (simp add: ceiling_def)

lemma bit_length_numeral:
  "bit_length (numeral w) = Suc (bit_length (numeral w div 2))"
  "bit_length 0 = 0"
  "bit_length 1 = 1"
  by (simp_all add: bit_length.simps [of "numeral w"] bit_length.simps [of 0]
      bit_length.simps [of 1])

lemmas double_eval = js_number_def to_double_def expo_def pow2_def round_even_def Let_def
  floor_rat_numeral floor_rat_neg_numeral ceiling_rat_numeral bit_length_numeral

lemma page1_fits: "view_fits E0 page1"
  by (simp add: view_fits_def E0_def grid_engine_def page1_def world_memory_def cells_ptr_def)

lemma page1_cells:
  "cell_rects (Cell_Dead E0) (memory_buffer E0 (wasm page1))
     (universe_cells E0 (universe page1) (wasm page1)) (width page1) (height page1)
   = [FillRect ''#000000'' 1 1 5 5, FillRect ''#FFFFFF'' 7 1 5 5, FillRect ''#FFFFFF'' 13 1 5 5]"
  by (simp add: E0_def grid_engine_def page1_def world_memory_def cells_ptr_def
      cell_rects_def cell_rect_def upt_rec)

lemma page2_overruns: "\<not> view_fits E0 page2"
  by (simp add: view_fits_def E0_def grid_engine_def page1_def page2_def world_memory_def
      cells_ptr_def)


theorem drawCells_wire_format_witness:
  "universe_cells E0 (universe page1) (wasm page1) + width page1 * height page1
     \<le> length (memory_buffer E0 (wasm page1))
   \<and> ops (ctx (after (drawCells E0 page1)))
       = [BeginPath, FillRect ''#000000'' 1 1 5 5, FillRect ''#FFFFFF'' 7 1 5 5,
          FillRect ''#FFFFFF'' 13 1 5 5, Stroke ''#CCCCCC'']
   \<and> \<not> universe_cells E0 (universe page2) (wasm page2) + width page2 * height page2
         \<le> length (memory_buffer E0 (wasm page2))
   \<and> drawCells E0 page2 = Inl (RangeError, page2)"
proof -
  have fits: "universe_cells E0 (universe page1) (wasm page1) + width page1 * height page1
                \<le> length (memory_buffer E0 (wasm page1))"
    using page1_fits by (simp add: view_fits_def)
  with drawCells_wire_format [of E0 page1] obtain c where
    c: "drawCells E0 page1 = Inr (page1\<lparr>ctx := c\<rparr>)"
       "ops c = ops (ctx page1) @ [BeginPath]
                 @ cell_rects (Cell_Dead E0) (memory_buffer E0 (wasm page1))
                     (universe_cells E0 (universe page1) (wasm page1)) (width page1) (height page1)
                 @ [Stroke (strokeStyle (ctx page1))]"
    by blast
  have drawn: "ops (ctx (after (drawCells E0 page1)))
       = [BeginPath, FillRect ''#000000'' 1 1 5 5, FillRect ''#FFFFFF'' 7 1 5 5,
          FillRect ''#FFFFFF'' 13 1 5 5, Stroke ''#CCCCCC'']"
    unfolding c(1) using c(2) unfolding page1_cells by (simp add: page1_def)
  have over: "\<not> universe_cells E0 (universe page2) (wasm page2) + width page2 * height page2
                  \<le> length (memory_buffer E0 (wasm page2))"
    using page2_overruns by (simp add: view_fits_def)
  with drawCells_wire_format [of E0 page2] have "drawCells E0 page2 = Inl (RangeError, page2)"
    by blast
  with fits drawn over show ?thesis by blast
qed

lemma page1_tick1:
  "universe_tick E0 (universe page1) (wasm page1)
     = \<lparr>grids = [\<lparr>gwidth = 3, gheight = 1, gcells = [Alive, Alive, Alive]\<rparr>], coin_pos = 0\<rparr>"
  by (simp add: E0_def grid_engine_def page1_def on_grid_def step_def live_neighbor_count_def
      neighbors_def neighbor_offsets_def wrap_def cell_at_def upt_rec)

lemma page1_tick2:
  "universe_tick E0 (universe page1)
     \<lparr>grids = [\<lparr>gwidth = 3, gheight = 1, gcells = [Alive, Alive, Alive]\<rparr>], coin_pos = 0\<rparr>
     = \<lparr>grids = [\<lparr>gwidth = 3, gheight = 1, gcells = [Dead, Dead, Dead]\<rparr>], coin_pos = 0\<rparr>"
  by (simp add: E0_def grid_engine_def page1_def on_grid_def step_def live_neighbor_count_def
      neighbors_def neighbor_offsets_def wrap_def cell_at_def upt_rec)

lemma page1_ticked:
  "(universe_tick E0 (universe page1) ^^ nat \<lceil>ticksPerFrame page1\<rceil>) (wasm page1)
     = \<lparr>grids = [\<lparr>gwidth = 3, gheight = 1, gcells = [Dead, Dead, Dead]\<rparr>], coin_pos = 0\<rparr>"
proof -
  have n: "nat \<lceil>ticksPerFrame page1\<rceil> = Suc (Suc 0)" by (simp add: page1_def)
  have twice: "(f ^^ Suc (Suc 0)) x = f (f x)" for f :: "world \<Rightarrow> world" and x
    by simp
  show ?thesis by (simp only: n twice page1_tick1 page1_tick2)
qed

lemma page1_grid_lines:
  "grid_lines (width page1) (height page1)
     = [BeginPath, MoveTo 1 0, LineTo 1 7, MoveTo 7 0, LineTo 7 7, MoveTo 13 0, LineTo 13 7,
        MoveTo 19 0, LineTo 19 7, MoveTo 0 1, LineTo 19 1, MoveTo 0 7, LineTo 19 7,
        Stroke ''#CCCCCC'']"
  by (simp add: grid_lines_def page1_def upt_rec)

lemma page1_frame:
  "frame_ops E0 (page1\<lparr>wasm := \<lparr>grids = [\<lparr>gwidth = 3, gheight = 1, gcells = [a, b, c]\<rparr>],
                                  coin_pos = k\<rparr>\<rparr>)
     = grid_lines (width page1) (height page1)
       @ [BeginPath,
          FillRect (if a = Dead then ''#FFFFFF'' else ''#000000'') 1 1 5 5,
          FillRect (if b = Dead then ''#FFFFFF'' else ''#000000'') 7 1 5 5,
          FillRect (if c = Dead then ''#FFFFFF'' else ''#000000'') 13 1 5 5,
          Stroke ''#CCCCCC'']"
proof -
  have byte: "(unat (cell_byte x) = 0) = (x = Dead)" for x by (cases x) simp_all
  show ?thesis
    by (simp add: frame_ops_def E0_def grid_engine_def page1_def world_memory_def cells_ptr_def
        cell_rects_def cell_rect_def upt_rec byte)
qed

lemma page1_ticked_fits:
  "view_fits E0 (page1\<lparr>wasm := (universe_tick E0 (universe page1) ^^ nat \<lceil>ticksPerFrame page1\<rceil>)
                                   (wasm page1)\<rparr>)"
  unfolding page1_ticked
  by (simp add: view_fits_def E0_def grid_engine_def page1_def world_memory_def cells_ptr_def)

lemma page2_ticked_overruns:
  "\<not> view_fits E0 (page2\<lparr>wasm := (universe_tick E0 (universe page2) ^^ nat \<lceil>ticksPerFrame page2\<rceil>)
                                     (wasm page2)\<rparr>)"
proof -
  have same: "wasm page2 = wasm page1" "universe page2 = universe page1"
    "ticksPerFrame page2 = ticksPerFrame page1"
    by (simp_all add: page2_def)
  have "\<not> view_fits E0 (page2\<lparr>wasm := \<lparr>grids = [\<lparr>gwidth = 3, gheight = 1,
                                  gcells = [Dead, Dead, Dead]\<rparr>], coin_pos = 0\<rparr>\<rparr>)"
    by (simp add: view_fits_def E0_def grid_engine_def page1_def page2_def world_memory_def
        cells_ptr_def)
  then show ?thesis unfolding same page1_ticked .
qed


theorem renderLoop_frame_witness:
  "ticksPerFrame page1 = of_nat 2
   \<and> view_fits E0 (page1\<lparr>wasm := (universe_tick E0 (universe page1) ^^ nat \<lceil>ticksPerFrame page1\<rceil>)
                                     (wasm page1)\<rparr>)
   \<and> nat \<lceil>ticksPerFrame page1\<rceil> = 2
   \<and> universe_tick E0 (universe page1) (wasm page1)
       = \<lparr>grids = [\<lparr>gwidth = 3, gheight = 1, gcells = [Alive, Alive, Alive]\<rparr>], coin_pos = 0\<rparr>
   \<and> wasm (after (renderLoop E0 page1))
       = \<lparr>grids = [\<lparr>gwidth = 3, gheight = 1, gcells = [Dead, Dead, Dead]\<rparr>], coin_pos = 0\<rparr>
   \<and> animationId (after (renderLoop E0 page1)) = Some 2
   \<and> frame_requests (after (renderLoop E0 page1)) = [1, 2]
   \<and> ops (ctx (after (renderLoop E0 page1)))
       = [BeginPath, MoveTo 1 0, LineTo 1 7, MoveTo 7 0, LineTo 7 7, MoveTo 13 0, LineTo 13 7,
          MoveTo 19 0, LineTo 19 7, MoveTo 0 1, LineTo 19 1, MoveTo 0 7, LineTo 19 7,
          Stroke ''#CCCCCC'',
          BeginPath, FillRect ''#FFFFFF'' 1 1 5 5, FillRect ''#FFFFFF'' 7 1 5 5,
          FillRect ''#FFFFFF'' 13 1 5 5, Stroke ''#CCCCCC'']
   \<and> frame_requests page1 = [1]
   \<and> react E0 AnimationFrame page1 = after (renderLoop E0 (page1\<lparr>frame_requests := []\<rparr>))
   \<and> \<not> view_fits E0 (page2\<lparr>wasm := (universe_tick E0 (universe page2) ^^ nat \<lceil>ticksPerFrame page2\<rceil>)
                                       (wasm page2)\<rparr>)
   \<and> renderLoop E0 page2
       = Inl (RangeError,
              drawGrid (page2\<lparr>wasm := (universe_tick E0 (universe page2) ^^ nat \<lceil>ticksPerFrame page2\<rceil>)
                                         (wasm page2)\<rparr>))"
proof -
  have two: "ticksPerFrame page1 = of_nat 2" by (simp add: page1_def)
  note inst = renderLoop_frame [of E0 page1, unfolded page1_ticked]
  from inst two have n: "nat \<lceil>ticksPerFrame page1\<rceil> = 2" by blast
  from inst page1_ticked_fits [unfolded page1_ticked] obtain c where
    c: "renderLoop E0 page1 =
          Inr (page1\<lparr>wasm := \<lparr>grids = [\<lparr>gwidth = 3, gheight = 1, gcells = [Dead, Dead, Dead]\<rparr>],
                               coin_pos = 0\<rparr>,
                      ctx := c,
                      frame_requests := frame_requests page1 @ [next_request_id page1],
                      next_request_id := Suc (next_request_id page1),
                      animationId := Some (next_request_id page1)\<rparr>)"
       "ops c = ops (ctx page1)
                 @ frame_ops E0 (page1\<lparr>wasm := \<lparr>grids = [\<lparr>gwidth = 3, gheight = 1,
                      gcells = [Dead, Dead, Dead]\<rparr>], coin_pos = 0\<rparr>\<rparr>)"
    by blast
  have drawn: "ops c = [BeginPath, MoveTo 1 0, LineTo 1 7, MoveTo 7 0, LineTo 7 7, MoveTo 13 0, LineTo 13 7,
          MoveTo 19 0, LineTo 19 7, MoveTo 0 1, LineTo 19 1, MoveTo 0 7, LineTo 19 7,
          Stroke ''#CCCCCC'',
          BeginPath, FillRect ''#FFFFFF'' 1 1 5 5, FillRect ''#FFFFFF'' 7 1 5 5,
          FillRect ''#FFFFFF'' 13 1 5 5, Stroke ''#CCCCCC'']"
    unfolding c(2) page1_frame page1_grid_lines by (simp add: page1_def)
  have a: "wasm (after (renderLoop E0 page1))
       = \<lparr>grids = [\<lparr>gwidth = 3, gheight = 1, gcells = [Dead, Dead, Dead]\<rparr>], coin_pos = 0\<rparr>"
    by (simp add: c(1))
  have b: "animationId (after (renderLoop E0 page1)) = Some 2"
    unfolding c(1) by (simp add: page1_def)
  have d: "frame_requests (after (renderLoop E0 page1)) = [1, 2]"
    unfolding c(1) by (simp add: page1_def)
  have e: "ops (ctx (after (renderLoop E0 page1))) = ops c"
    by (simp add: c(1))
  have f: "frame_requests page1 = [1]" by (simp add: page1_def)
  with renderLoop_frame [of E0 page1] have
    g: "react E0 AnimationFrame page1 = after (renderLoop E0 (page1\<lparr>frame_requests := []\<rparr>))"
    by blast
  from renderLoop_frame [of E0 page2] page2_ticked_overruns have
    h: "renderLoop E0 page2
       = Inl (RangeError,
              drawGrid (page2\<lparr>wasm := (universe_tick E0 (universe page2) ^^ nat \<lceil>ticksPerFrame page2\<rceil>)
                                         (wasm page2)\<rparr>))"
    by blast
  from two page1_ticked_fits n page1_tick1 a b d f g page2_ticked_overruns h show ?thesis
    unfolding e drawn by blast
qed

lemma page1_reset:
  "Universe_random_universe E0 (wasm page1)
     = (1, \<lparr>grids = [\<lparr>gwidth = 3, gheight = 1, gcells = [Alive, Dead, Dead]\<rparr>,
                     \<lparr>gwidth = 1, gheight = 3, gcells = [Alive, Dead, Alive]\<rparr>],
            coin_pos = 3\<rparr>)"
  by (simp add: E0_def grid_engine_def page1_def randomized_def alloc_def coin_cell_def upt_rec)

lemma page1_kill:
  "universe_kill_universe E0 (universe page1) (wasm page1)
     = \<lparr>grids = [\<lparr>gwidth = 3, gheight = 1, gcells = [Dead, Dead, Dead]\<rparr>], coin_pos = 0\<rparr>"
  by (simp add: E0_def grid_engine_def page1_def on_grid_def clear_def)

lemma page1_fresh_frame:
  "frame_ops E0 (page1\<lparr>wasm := \<lparr>grids = [\<lparr>gwidth = 3, gheight = 1, gcells = [Alive, Dead, Dead]\<rparr>,
                     \<lparr>gwidth = 1, gheight = 3, gcells = [Alive, Dead, Alive]\<rparr>],
            coin_pos = 3\<rparr>, universe := 1\<rparr>)
     = grid_lines (width page1) (height page1)
       @ [BeginPath, FillRect ''#000000'' 1 1 5 5, FillRect ''#FFFFFF'' 7 1 5 5,
          FillRect ''#000000'' 13 1 5 5, Stroke ''#CCCCCC'']"
  by (simp add: frame_ops_def E0_def grid_engine_def page1_def world_memory_def cells_ptr_def
      cell_rects_def cell_rect_def upt_rec)

lemma page1_fresh_fits:
  "view_fits E0 (page1\<lparr>wasm := snd (Universe_random_universe E0 (wasm page1)),
                        universe := fst (Universe_random_universe E0 (wasm page1))\<rparr>)"
  unfolding page1_reset
  by (simp add: view_fits_def E0_def grid_engine_def page1_def world_memory_def cells_ptr_def)

lemma page1_killed_fits:
  "view_fits E0 ((pause page1)\<lparr>wasm := universe_kill_universe E0 (universe page1) (wasm page1)\<rparr>)"
  unfolding page1_kill
  by (simp add: view_fits_def E0_def grid_engine_def page1_def world_memory_def cells_ptr_def
      pause_eq)

text \<open>
  C4 as stated fails: after a reset the current universe is another one. The universe
  that was current has not been randomized, it holds the cells it held, and the new one
  has dimensions of its own.
\<close>

theorem reset_constructs_new_universe:
  "universe (after (resetClick E0 page1)) \<noteq> universe page1
   \<and> grids (wasm (after (resetClick E0 page1))) ! universe page1
       = grids (wasm page1) ! universe page1
   \<and> gcells (grids (wasm page1) ! universe page1) = [Alive, Dead, Dead]
   \<and> grids (wasm (after (resetClick E0 page1))) ! universe (after (resetClick E0 page1))
       = \<lparr>gwidth = 1, gheight = 3, gcells = [Alive, Dead, Alive]\<rparr>"
proof -
  obtain c where
    c: "after (resetClick E0 page1)
          = page1\<lparr>wasm := snd (Universe_random_universe E0 (wasm page1)),
                   universe := fst (Universe_random_universe E0 (wasm page1)),
                   ctx := c\<rparr>"
    unfolding resetClick_eq
    using after_redraw [of E0 "page1\<lparr>wasm := snd (Universe_random_universe E0 (wasm page1)),
                   universe := fst (Universe_random_universe E0 (wasm page1))\<rparr>"]
    by blast
  show ?thesis
    unfolding c page1_reset by (simp add: page1_def)
qed

lemma page2_reset_overruns:
  "\<not> view_fits E0 (page2\<lparr>wasm := snd (Universe_random_universe E0 (wasm page2)),
                          universe := fst (Universe_random_universe E0 (wasm page2))\<rparr>)"
proof -
  have w: "wasm page2 = wasm page1" by (simp add: page2_def)
  have "\<not> view_fits E0 (page2\<lparr>wasm := \<lparr>grids = [\<lparr>gwidth = 3, gheight = 1, gcells = [Alive, Dead, Dead]\<rparr>,
                     \<lparr>gwidth = 1, gheight = 3, gcells = [Alive, Dead, Alive]\<rparr>],
            coin_pos = 3\<rparr>, universe := 1\<rparr>)"
    by (simp add: view_fits_def E0_def grid_engine_def page1_def page2_def
        world_memory_def cells_ptr_def)
  then show ?thesis
    unfolding w page1_reset by simp
qed

lemma page2_killed_overruns:
  "\<not> view_fits E0 ((pause page2)\<lparr>wasm := universe_kill_universe E0 (universe page2) (wasm page2)\<rparr>)"
proof -
  have same: "wasm page2 = wasm page1" "universe page2 = universe page1"
    by (simp_all add: page2_def)
  have "\<not> view_fits E0 ((pause page2)\<lparr>wasm := \<lparr>grids = [\<lparr>gwidth = 3, gheight = 1,
                                  gcells = [Dead, Dead, Dead]\<rparr>], coin_pos = 0\<rparr>\<rparr>)"
    by (simp add: view_fits_def E0_def grid_engine_def page1_def page2_def world_memory_def
        cells_ptr_def pause_eq)
  then show ?thesis unfolding same page1_kill .
qed

theorem reset_and_kill_redraw_witness:
  "view_fits E0 (page1\<lparr>wasm := snd (Universe_random_universe E0 (wasm page1)),
                        universe := fst (Universe_random_universe E0 (wasm page1))\<rparr>)
   \<and> view_fits E0 ((pause page1)\<lparr>wasm := universe_kill_universe E0 (universe page1) (wasm page1)\<rparr>)
   \<and> universe (after (resetClick E0 page1)) = 1
   \<and> ops (ctx (after (resetClick E0 page1)))
       = grid_lines 3 1
         @ [BeginPath, FillRect ''#000000'' 1 1 5 5, FillRect ''#FFFFFF'' 7 1 5 5,
            FillRect ''#000000'' 13 1 5 5, Stroke ''#CCCCCC'']
   \<and> wasm (after (killClick E0 page1))
       = \<lparr>grids = [\<lparr>gwidth = 3, gheight = 1, gcells = [Dead, Dead, Dead]\<rparr>], coin_pos = 0\<rparr>
   \<and> ops (ctx (after (killClick E0 page1)))
       = grid_lines 3 1
         @ [BeginPath, FillRect ''#FFFFFF'' 1 1 5 5, FillRect ''#FFFFFF'' 7 1 5 5,
            FillRect ''#FFFFFF'' 13 1 5 5, Stroke ''#CCCCCC'']
   \<and> \<not> view_fits E0 (page2\<lparr>wasm := snd (Universe_random_universe E0 (wasm page2)),
                            universe := fst (Universe_random_universe E0 (wasm page2))\<rparr>)
   \<and> resetClick E0 page2
       = Inl (RangeError,
              drawGrid (page2\<lparr>wasm := snd (Universe_random_universe E0 (wasm page2)),
                               universe := fst (Universe_random_universe E0 (wasm page2))\<rparr>))
   \<and> \<not> view_fits E0 ((pause page2)\<lparr>wasm := universe_kill_universe E0 (universe page2)
                                               (wasm page2)\<rparr>)
   \<and> killClick E0 page2
       = Inl (RangeError,
              drawGrid ((pause page2)\<lparr>wasm := universe_kill_universe E0 (universe page2)
                                                 (wasm page2)\<rparr>))"
proof -
  note inst = reset_and_kill_redraw [of E0 page1]
  from inst page1_fresh_fits obtain c where
    c: "resetClick E0 page1 =
          Inr (page1\<lparr>wasm := snd (Universe_random_universe E0 (wasm page1)),
                      universe := fst (Universe_random_universe E0 (wasm page1)),
                      ctx := c\<rparr>)"
       "ops c = ops (ctx page1)
                 @ frame_ops E0 (page1\<lparr>wasm := snd (Universe_random_universe E0 (wasm page1)),
                      universe := fst (Universe_random_universe E0 (wasm page1))\<rparr>)"
    by blast
  from inst page1_killed_fits obtain c' where
    c': "killClick E0 page1 =
          Inr ((pause page1)\<lparr>wasm := universe_kill_universe E0 (universe page1) (wasm page1),
                              ctx := c'\<rparr>)"
        "ops c' = ops (ctx page1)
                 @ frame_ops E0 ((pause page1)\<lparr>wasm := universe_kill_universe E0 (universe page1)
                      (wasm page1)\<rparr>)"
    by blast
  have dims: "width page1 = 3" "height page1 = 1" "ops (ctx page1) = []"
    by (simp_all add: page1_def)
  have r1: "universe (after (resetClick E0 page1)) = 1"
    unfolding c(1) page1_reset by simp
  have r2: "ops (ctx (after (resetClick E0 page1)))
       = grid_lines 3 1
         @ [BeginPath, FillRect ''#000000'' 1 1 5 5, FillRect ''#FFFFFF'' 7 1 5 5,
            FillRect ''#000000'' 13 1 5 5, Stroke ''#CCCCCC'']"
    unfolding c(1) using c(2) page1_fresh_frame unfolding page1_reset by (simp add: dims)
  have k1: "wasm (after (killClick E0 page1))
       = \<lparr>grids = [\<lparr>gwidth = 3, gheight = 1, gcells = [Dead, Dead, Dead]\<rparr>], coin_pos = 0\<rparr>"
    unfolding c'(1) page1_kill by simp
  have paused: "frame_ops E0 ((pause page1)\<lparr>wasm := w\<rparr>) = frame_ops E0 (page1\<lparr>wasm := w\<rparr>)" for w
    by (simp add: frame_ops_def pause_eq)
  have k2: "ops (ctx (after (killClick E0 page1)))
       = grid_lines 3 1
         @ [BeginPath, FillRect ''#FFFFFF'' 1 1 5 5, FillRect ''#FFFFFF'' 7 1 5 5,
            FillRect ''#FFFFFF'' 13 1 5 5, Stroke ''#CCCCCC'']"
    unfolding c'(1) using c'(2) page1_frame [of Dead Dead Dead 0]
    unfolding page1_kill paused by (simp add: dims)
  from reset_and_kill_redraw [of E0 page2] page2_reset_overruns have
    o1: "resetClick E0 page2
       = Inl (RangeError,
              drawGrid (page2\<lparr>wasm := snd (Universe_random_universe E0 (wasm page2)),
                               universe := fst (Universe_random_universe E0 (wasm page2))\<rparr>))"
    by blast
  from reset_and_kill_redraw [of E0 page2] page2_killed_overruns have
    o2: "killClick E0 page2
       = Inl (RangeError,
              drawGrid ((pause page2)\<lparr>wasm := universe_kill_universe E0 (universe page2)
                                                 (wasm page2)\<rparr>))"
    by blast
  from page1_fresh_fits page1_killed_fits r1 r2 k1 k2 page2_reset_overruns o1
    page2_killed_overruns o2
  show ?thesis by blast
qed

text \<open>
  Some roundings: a tenth, integers beyond \<open>2^53\<close> (a tie goes to the even neighbour),
  the subnormal range, and the overflow half way between the largest double and \<open>2^1024\<close>.
\<close>

lemma double_examples:
  "js_number (1 / 10) = Num (3602879701896397 / 36028797018963968)"
  "js_number (2 ^ 53 + 1) = Num (2 ^ 53)"
  "js_number (2 ^ 53 + 3) = Num (2 ^ 53 + 4)"
  "js_number (- (7 / 5)) = Num (- (3152519739159347 / 2251799813685248))"
  "js_number (1 / 2 ^ 1075) = Num 0"
  "js_number (3 / 2 ^ 1075) = Num (2 / 2 ^ 1074)"
  "js_number (2 ^ 1024 - 2 ^ 970 - 1) = Num (2 ^ 1024 - 2 ^ 971)"
  "js_number (2 ^ 1024 - 2 ^ 970) = Infinity"
  by (simp_all add: double_eval)

lemma page1_click1: "click_cell page1 click1 rect1 = (Num 0, Num 2)"
  by (simp add: click_cell_def page1_def click1_def rect1_def CELL_SIZE_def double_eval)


lemma page1_click3: "click_cell page1 click3 rect0 = (NaN, NaN)"
  by (simp add: click_cell_def page1_def click3_def rect0_def CELL_SIZE_def double_eval)

text \<open>
  The rounding decides the cell. On the canvas shown at 49 times its size the scale
  \<open>19 / 931\<close> is rounded down, 294 times the scale is the double just below 6, and the
  click goes to column 0, where the exact quotient is 1. Likewise 90 pixels into a canvas
  385 wide that is shown 275 wide go to column 20, not 21.
\<close>

lemma page1_click4:
  "click_cell page1 click4 rect2 = (Num 0, Num 0)
   \<and> \<lfloor>(clientX click4 - rect_left rect2) * (of_nat (canvas_width page1) / rect_width rect2)
        / of_nat (CELL_SIZE + 1)\<rfloor> = 1"
  by (simp add: click_cell_def page1_def click4_def rect2_def CELL_SIZE_def double_eval)

lemma click_cell_rounds:
  assumes "canvas_width s = 385" and "width s = 64" and "rect_width boundingRect = 275"
      and "clientX event = 90" and "rect_left boundingRect = 0"
  shows "snd (click_cell s event boundingRect) = Num 20
       \<and> \<lfloor>(clientX event - rect_left boundingRect)
            * (of_nat (canvas_width s) / rect_width boundingRect) / of_nat (CELL_SIZE + 1)\<rfloor> = 21"
  using assms by (simp add: click_cell_def CELL_SIZE_def double_eval)

text \<open>
  On a canvas laid out \<open>2^(-1074)\<close> pixels wide the ratio overflows to \<^verbatim>\<open>Infinity\<close>, and a
  click on the corner gets neither row nor column.
\<close>

lemma page1_click_overflow: "click_cell page1 click3 rect3 = (NaN, NaN)"
  by (simp add: click_cell_def page1_def click3_def rect3_def CELL_SIZE_def double_eval)

lemma page1_toggle:
  "universe_toggle_cell E0 (universe page1) (Num 0) (Num 2) (wasm page1)
     = (None, \<lparr>grids = [\<lparr>gwidth = 3, gheight = 1, gcells = [Alive, Dead, Alive]\<rparr>],
                coin_pos = 0\<rparr>)"
  by (simp add: E0_def grid_engine_def page1_def toggle_def)

lemma page1_toggle_nan:
  "universe_toggle_cell E0 (universe page1) NaN NaN (wasm page1) = (Some OutOfBounds, wasm page1)"
  by (simp add: E0_def grid_engine_def page1_def)

lemma page1_toggled_fits:
  "view_fits E0 (page1\<lparr>wasm := \<lparr>grids = [\<lparr>gwidth = 3, gheight = 1, gcells = [Alive, Dead, Alive]\<rparr>],
                coin_pos = 0\<rparr>\<rparr>)"
  by (simp add: view_fits_def E0_def grid_engine_def page1_def world_memory_def cells_ptr_def)

theorem canvasClick_toggles_clicked_cell_witness:
  "0 < rect_width rect1 \<and> 0 < rect_height rect1
   \<and> \<bar>clientX click1 - rect_left rect1\<bar> < 2 ^ 500
   \<and> \<bar>clientY click1 - rect_top rect1\<bar> < 2 ^ 500
   \<and> of_nat (canvas_width page1) / rect_width rect1 < 2 ^ 500
   \<and> of_nat (canvas_height page1) / rect_height rect1 < 2 ^ 500
   \<and> click_cell page1 click1 rect1 = (Num 0, Num 2)
   \<and> universe_toggle_cell E0 (universe page1) (Num 0) (Num 2) (wasm page1)
       = (None, \<lparr>grids = [\<lparr>gwidth = 3, gheight = 1, gcells = [Alive, Dead, Alive]\<rparr>],
                  coin_pos = 0\<rparr>)
   \<and> wasm (after (canvasClick E0 click1 rect1 page1))
       = \<lparr>grids = [\<lparr>gwidth = 3, gheight = 1, gcells = [Alive, Dead, Alive]\<rparr>], coin_pos = 0\<rparr>
   \<and> ops (ctx (after (canvasClick E0 click1 rect1 page1)))
       = grid_lines 3 1
         @ [BeginPath, FillRect ''#000000'' 1 1 5 5, FillRect ''#FFFFFF'' 7 1 5 5,
            FillRect ''#000000'' 13 1 5 5, Stroke ''#CCCCCC'']
   \<and> click_cell page1 click4 rect2 = (Num 0, Num 0)"
proof -
  have w: "0 < rect_width rect1" and h: "0 < rect_height rect1"
    by (simp_all add: rect1_def)
  have dx: "\<bar>clientX click1 - rect_left rect1\<bar> < 2 ^ 500"
    and dy: "\<bar>clientY click1 - rect_top rect1\<bar> < 2 ^ 500"
    by (simp_all add: click1_def rect1_def)
  have sx: "of_nat (canvas_width page1) / rect_width rect1 < 2 ^ 500"
    and sy: "of_nat (canvas_height page1) / rect_height rect1 < 2 ^ 500"
    by (simp_all add: page1_def rect1_def)
  note inst = canvasClick_toggles_clicked_cell [OF w h dx dy sx sy, of E0]
  from inst have cell: "click_cell page1 click1 rect1
      = (Num (of_int (min \<lfloor>to_double (to_double (to_double (clientY click1 - rect_top rect1)
                                * to_double (of_nat (canvas_height page1) / rect_height rect1))
                            / of_nat (CELL_SIZE + 1))\<rfloor> (int (height page1) - 1))),
         Num (of_int (min \<lfloor>to_double (to_double (to_double (clientX click1 - rect_left rect1)
                                * to_double (of_nat (canvas_width page1) / rect_width rect1))
                            / of_nat (CELL_SIZE + 1))\<rfloor> (int (width page1) - 1))))"
    by blast
  have row: "of_int (min \<lfloor>to_double (to_double (to_double (clientY click1 - rect_top rect1)
                                * to_double (of_nat (canvas_height page1) / rect_height rect1))
                            / of_nat (CELL_SIZE + 1))\<rfloor> (int (height page1) - 1)) = (0::rat)"
    using cell page1_click1 by simp
  have col: "of_int (min \<lfloor>to_double (to_double (to_double (clientX click1 - rect_left rect1)
                                * to_double (of_nat (canvas_width page1) / rect_width rect1))
                            / of_nat (CELL_SIZE + 1))\<rfloor> (int (width page1) - 1)) = (2::rat)"
    using cell page1_click1 by simp
  from inst [unfolded row col] page1_toggle page1_toggled_fits obtain c where
    c: "canvasClick E0 click1 rect1 page1
          = Inr (page1\<lparr>wasm := \<lparr>grids = [\<lparr>gwidth = 3, gheight = 1, gcells = [Alive, Dead, Alive]\<rparr>],
                coin_pos = 0\<rparr>, ctx := c\<rparr>)"
       "ops c = ops (ctx page1)
                 @ frame_ops E0 (page1\<lparr>wasm := \<lparr>grids = [\<lparr>gwidth = 3, gheight = 1,
                      gcells = [Alive, Dead, Alive]\<rparr>], coin_pos = 0\<rparr>\<rparr>)"
    by blast
  have dims: "width page1 = 3" "height page1 = 1" "ops (ctx page1) = []"
    by (simp_all add: page1_def)
  have a: "wasm (after (canvasClick E0 click1 rect1 page1))
       = \<lparr>grids = [\<lparr>gwidth = 3, gheight = 1, gcells = [Alive, Dead, Alive]\<rparr>], coin_pos = 0\<rparr>"
    unfolding c(1) by simp
  have b: "ops (ctx (after (canvasClick E0 click1 rect1 page1)))
       = grid_lines 3 1
         @ [BeginPath, FillRect ''#000000'' 1 1 5 5, FillRect ''#FFFFFF'' 7 1 5 5,
            FillRect ''#000000'' 13 1 5 5, Stroke ''#CCCCCC'']"
    unfolding c(1) using c(2) page1_frame [of Alive Dead Alive 0] by (simp add: dims)
  from page1_click4 have far: "click_cell page1 click4 rect2 = (Num 0, Num 0)" by blast
  from w h dx dy sx sy page1_click1 page1_toggle a b far show ?thesis by blast
qed


theorem kill_pauses_reset_does_not_witness:
  "animationId page1 = Some 1 \<and> frame_requests page1 = [1]
   \<and> 1 \<notin> set (frame_requests (after (killClick E0 page1)))
   \<and> animationId (after (killClick E0 page1)) = None
   \<and> isPaused (after (killClick E0 page1))
   \<and> playPauseButton_textContent (after (killClick E0 page1)) = PLAY_GLYPH
   \<and> frame_requests (after (killClick E0 page1)) = []
   \<and> animationId (after (resetClick E0 page1)) = Some 1
   \<and> playPauseButton_textContent (after (resetClick E0 page1)) = PAUSE_GLYPH
   \<and> frame_requests (after (resetClick E0 page1)) = [1]"
proof -
  have a: "animationId page1 = Some 1" and f: "frame_requests page1 = [1]"
    and t: "playPauseButton_textContent page1 = PAUSE_GLYPH"
    by (simp_all add: page1_def)
  note inst = kill_pauses_reset_does_not [of E0 page1]
  from inst a have "1 \<notin> set (frame_requests (after (killClick E0 page1)))" by blast
  moreover from inst have "animationId (after (killClick E0 page1)) = None" by blast
  moreover from inst have "isPaused (after (killClick E0 page1))" by blast
  moreover from inst have "playPauseButton_textContent (after (killClick E0 page1)) = PLAY_GLYPH"
    by blast
  moreover have "frame_requests (after (killClick E0 page1)) = []"
  proof -
    from inst have "frame_requests (after (killClick E0 page1)) =
       (case animationId page1 of None \<Rightarrow> frame_requests page1
        | Some i \<Rightarrow> removeAll i (frame_requests page1))"
      by blast
    then show ?thesis unfolding a f by simp
  qed
  moreover have "animationId (after (resetClick E0 page1)) = Some 1"
  proof -
    from inst have "animationId (after (resetClick E0 page1)) = animationId page1" by blast
    then show ?thesis unfolding a .
  qed
  moreover have "playPauseButton_textContent (after (resetClick E0 page1)) = PAUSE_GLYPH"
  proof -
    from inst have "playPauseButton_textContent (after (resetClick E0 page1))
                      = playPauseButton_textContent page1"
      by blast
    then show ?thesis unfolding t .
  qed
  moreover have "frame_requests (after (resetClick E0 page1)) = [1]"
  proof -
    from inst have "frame_requests (after (resetClick E0 page1)) = frame_requests page1" by blast
    then show ?thesis unfolding f .
  qed
  ultimately show ?thesis using a f by blast
qed

lemma page1_after_reset:
  "\<exists>c. after (resetClick E0 page1)
          = page1\<lparr>wasm := \<lparr>grids = [\<lparr>gwidth = 3, gheight = 1, gcells = [Alive, Dead, Dead]\<rparr>,
                                      \<lparr>gwidth = 1, gheight = 3, gcells = [Alive, Dead, Alive]\<rparr>],
                             coin_pos = 3\<rparr>,
                   universe := 1, ctx := c\<rparr>"
  unfolding resetClick_eq
  using after_redraw [of E0 "page1\<lparr>wasm := snd (Universe_random_universe E0 (wasm page1)),
                   universe := fst (Universe_random_universe E0 (wasm page1))\<rparr>"]
  unfolding page1_reset by simp

theorem draws_after_completed_mutation_witness:
  "(\<exists>c. renderLoop E0 page1 =
           Inr (page1\<lparr>wasm := \<lparr>grids = [\<lparr>gwidth = 3, gheight = 1, gcells = [Dead, Dead, Dead]\<rparr>],
                                  coin_pos = 0\<rparr>,
                      ctx := c,
                      frame_requests := frame_requests page1 @ [next_request_id page1],
                      next_request_id := Suc (next_request_id page1),
                      animationId := Some (next_request_id page1)\<rparr>)
       \<and> ops c = ops (ctx page1)
                  @ frame_ops E0 (page1\<lparr>wasm := \<lparr>grids = [\<lparr>gwidth = 3, gheight = 1,
                                      gcells = [Dead, Dead, Dead]\<rparr>], coin_pos = 0\<rparr>\<rparr>))
   \<and> (\<exists>c. canvasClick E0 click1 rect1 page1 =
           Inr (page1\<lparr>wasm := \<lparr>grids = [\<lparr>gwidth = 3, gheight = 1, gcells = [Alive, Dead, Alive]\<rparr>],
                                  coin_pos = 0\<rparr>,
                      ctx := c\<rparr>)
       \<and> ops c = ops (ctx page1)
                  @ frame_ops E0 (page1\<lparr>wasm := \<lparr>grids = [\<lparr>gwidth = 3, gheight = 1,
                                      gcells = [Alive, Dead, Alive]\<rparr>], coin_pos = 0\<rparr>\<rparr>))
   \<and> canvasClick E0 click3 rect0 page1 = Inl (EngineError OutOfBounds, page1)
   \<and> killClick E0 page2
       = Inl (RangeError,
              drawGrid ((pause page2)\<lparr>wasm := universe_kill_universe E0 (universe page2)
                                                 (wasm page2)\<rparr>))
   \<and> renderLoop E0 page1 = Inr (after (renderLoop E0 page1))
   \<and> wasm (after (renderLoop E0 page1))
       = \<lparr>grids = [\<lparr>gwidth = 3, gheight = 1, gcells = [Dead, Dead, Dead]\<rparr>], coin_pos = 0\<rparr>
   \<and> ops (ctx (after (renderLoop E0 page1)))
       = ops (ctx page1) @ frame_ops E0 (after (renderLoop E0 page1))
   \<and> resetClick E0 page2 = Inl (RangeError, after (resetClick E0 page2))
   \<and> filter is_FillRect (ops (ctx (after (resetClick E0 page2)))) = []"
proof -
  note at_frame = draws_after_completed_mutation
    [of E0 page1 click1 rect1 "after (renderLoop E0 page1)" RangeError]
  from at_frame page1_ticked_fits have
    "\<exists>c. renderLoop E0 page1 =
           Inr (page1\<lparr>wasm := (universe_tick E0 (universe page1) ^^ nat \<lceil>ticksPerFrame page1\<rceil>)
                                   (wasm page1),
                      ctx := c,
                      frame_requests := frame_requests page1 @ [next_request_id page1],
                      next_request_id := Suc (next_request_id page1),
                      animationId := Some (next_request_id page1)\<rparr>)
       \<and> ops c = ops (ctx page1)
                  @ frame_ops E0 (page1\<lparr>wasm := (universe_tick E0 (universe page1)
                                      ^^ nat \<lceil>ticksPerFrame page1\<rceil>) (wasm page1)\<rparr>)"
    by blast
  then have r1: "\<exists>c. renderLoop E0 page1 =
           Inr (page1\<lparr>wasm := \<lparr>grids = [\<lparr>gwidth = 3, gheight = 1, gcells = [Dead, Dead, Dead]\<rparr>],
                                  coin_pos = 0\<rparr>,
                      ctx := c,
                      frame_requests := frame_requests page1 @ [next_request_id page1],
                      next_request_id := Suc (next_request_id page1),
                      animationId := Some (next_request_id page1)\<rparr>)
       \<and> ops c = ops (ctx page1)
                  @ frame_ops E0 (page1\<lparr>wasm := \<lparr>grids = [\<lparr>gwidth = 3, gheight = 1,
                                      gcells = [Dead, Dead, Dead]\<rparr>], coin_pos = 0\<rparr>\<rparr>)"
    unfolding page1_ticked .
  then have frame: "renderLoop E0 page1 = Inr (after (renderLoop E0 page1))"
    by auto
  from at_frame frame have
    a: "wasm (after (renderLoop E0 page1))
          = (universe_tick E0 (universe page1) ^^ nat \<lceil>ticksPerFrame page1\<rceil>) (wasm page1)"
    and b: "ops (ctx (after (renderLoop E0 page1)))
          = ops (ctx page1) @ frame_ops E0 (after (renderLoop E0 page1))"
    by blast+
  have tg: "universe_toggle_cell E0 (universe page1) (fst (click_cell page1 click1 rect1))
              (snd (click_cell page1 click1 rect1)) (wasm page1)
            = (None, \<lparr>grids = [\<lparr>gwidth = 3, gheight = 1, gcells = [Alive, Dead, Alive]\<rparr>],
                       coin_pos = 0\<rparr>)"
    unfolding page1_click1 using page1_toggle by simp
  from at_frame [unfolded tg fst_conv snd_conv] page1_toggled_fits have
    r2: "\<exists>c. canvasClick E0 click1 rect1 page1 =
           Inr (page1\<lparr>wasm := \<lparr>grids = [\<lparr>gwidth = 3, gheight = 1, gcells = [Alive, Dead, Alive]\<rparr>],
                                  coin_pos = 0\<rparr>,
                      ctx := c\<rparr>)
       \<and> ops c = ops (ctx page1)
                  @ frame_ops E0 (page1\<lparr>wasm := \<lparr>grids = [\<lparr>gwidth = 3, gheight = 1,
                                      gcells = [Alive, Dead, Alive]\<rparr>], coin_pos = 0\<rparr>\<rparr>)"
    by blast
  note at_corner = draws_after_completed_mutation
    [of E0 page1 click3 rect0 page1 RangeError]
  have tn: "universe_toggle_cell E0 (universe page1) (fst (click_cell page1 click3 rect0))
              (snd (click_cell page1 click3 rect0)) (wasm page1)
            = (Some OutOfBounds, wasm page1)"
    unfolding page1_click3 using page1_toggle_nan by simp
  from at_corner [unfolded tn fst_conv snd_conv] have
    "canvasClick E0 click3 rect0 page1 = Inl (EngineError OutOfBounds, page1\<lparr>wasm := wasm page1\<rparr>)"
    by blast
  then have r3: "canvasClick E0 click3 rect0 page1 = Inl (EngineError OutOfBounds, page1)"
    by simp
  note at_reset = draws_after_completed_mutation
    [of E0 page2 click1 rect1 "after (resetClick E0 page2)" RangeError]
  from at_reset page2_killed_overruns have
    r4: "killClick E0 page2
       = Inl (RangeError,
              drawGrid ((pause page2)\<lparr>wasm := universe_kill_universe E0 (universe page2)
                                                 (wasm page2)\<rparr>))"
    by blast
  from at_reset page2_reset_overruns have
    "resetClick E0 page2
       = Inl (RangeError,
              drawGrid (page2\<lparr>wasm := snd (Universe_random_universe E0 (wasm page2)),
                               universe := fst (Universe_random_universe E0 (wasm page2))\<rparr>))"
    by blast
  then have reset: "resetClick E0 page2 = Inl (RangeError, after (resetClick E0 page2))"
    by simp
  from at_reset reset have
    "filter is_FillRect (ops (ctx (after (resetClick E0 page2))))
       = filter is_FillRect (ops (ctx page2))"
    by blast
  then have c: "filter is_FillRect (ops (ctx (after (resetClick E0 page2)))) = []"
    by (simp add: page2_def page1_def)
  from r1 r2 r3 r4 frame a [unfolded page1_ticked] b reset c show ?thesis by blast
qed

lemma blank_page_new:
  "Universe_new E0 (wasm (blank_page v))
     = (0, \<lparr>grids = [\<lparr>gwidth = 3, gheight = 1, gcells = [Dead, Dead, Dead]\<rparr>], coin_pos = 0\<rparr>)"
  by (simp add: E0_def grid_engine_def blank_page_def new_def alloc_def numeral_3_eq_3)

theorem dimensions_captured_once_witness:
  "dimensions (declarations E0 (blank_page 2)) = (3, 1, 19, 7)
   \<and> dimensions page1 = (3, 1, 19, 7)
   \<and> dimensions (run E0 [ResetClick, AnimationFrame, KillClick] page1) = (3, 1, 19, 7)
   \<and> universe_width E0 (universe (after (resetClick E0 page1))) (wasm (after (resetClick E0 page1))) = 1
   \<and> universe_height E0 (universe (after (resetClick E0 page1))) (wasm (after (resetClick E0 page1))) = 3
   \<and> dimensions (after (resetClick E0 page1)) = (3, 1, 19, 7)"
proof -
  note inst = dimensions_captured_once [of E0 "blank_page 2"
      "[ResetClick, AnimationFrame, KillClick]" page1 "\<lambda>h w. 0" "\<lambda>h w. 0" click1 rect1]
  have p: "dimensions page1 = (3, 1, 19, 7)" by (simp add: dimensions_def page1_def)
  from inst have "dimensions (declarations E0 (blank_page 2)) =
     (universe_width E0 (fst (Universe_new E0 (wasm (blank_page 2)))) (snd (Universe_new E0 (wasm (blank_page 2)))),
      universe_height E0 (fst (Universe_new E0 (wasm (blank_page 2)))) (snd (Universe_new E0 (wasm (blank_page 2)))),
      (CELL_SIZE + 1) * universe_width E0 (fst (Universe_new E0 (wasm (blank_page 2)))) (snd (Universe_new E0 (wasm (blank_page 2)))) + 1,
      (CELL_SIZE + 1) * universe_height E0 (fst (Universe_new E0 (wasm (blank_page 2)))) (snd (Universe_new E0 (wasm (blank_page 2)))) + 1)"
    by blast
  then have d: "dimensions (declarations E0 (blank_page 2)) = (3, 1, 19, 7)"
    unfolding blank_page_new by (simp add: E0_def grid_engine_def CELL_SIZE_def)
  from inst have "dimensions (run E0 [ResetClick, AnimationFrame, KillClick] page1) = dimensions page1"
    by blast
  then have r: "dimensions (run E0 [ResetClick, AnimationFrame, KillClick] page1) = (3, 1, 19, 7)"
    unfolding p .
  from inst have "dimensions (after (resetClick E0 page1)) = dimensions page1" by blast
  then have k: "dimensions (after (resetClick E0 page1)) = (3, 1, 19, 7)" unfolding p .
  from page1_after_reset obtain c where
    c: "after (resetClick E0 page1)
          = page1\<lparr>wasm := \<lparr>grids = [\<lparr>gwidth = 3, gheight = 1, gcells = [Alive, Dead, Dead]\<rparr>,
                                      \<lparr>gwidth = 1, gheight = 3, gcells = [Alive, Dead, Alive]\<rparr>],
                             coin_pos = 3\<rparr>,
                   universe := 1, ctx := c\<rparr>"
    by blast
  have w: "universe_width E0 (universe (after (resetClick E0 page1))) (wasm (after (resetClick E0 page1))) = 1"
    unfolding c by (simp add: E0_def grid_engine_def)
  have h: "universe_height E0 (universe (after (resetClick E0 page1))) (wasm (after (resetClick E0 page1))) = 3"
    unfolding c by (simp add: E0_def grid_engine_def)
  from d p r w h k show ?thesis by blast
qed

end
